theory Spec2Isabelle
  imports Main "HOL-Library.Sublist" "HOL-Library.Char_ord" "HOL-Library.List_Lexorder"
begin

section \<open>Strings and JSON values\<close>

text \<open>
  JavaScript strings are modelled as \<open>string\<close>. Role names, status names, setting
  values and request paths are ASCII in this code base; \<open>toUpperCase\<close> and
  \<open>toLowerCase\<close> are modelled on the ASCII letters and leave every other character
  as it is. The runtime maps further characters (\<open>toUpperCase\<close> takes U+0131 to
  \<open>I\<close> and U+017F to \<open>S\<close>); text with letters outside ASCII is outside this model.
\<close>

definition lower_letters :: string where
  "lower_letters = ''abcdefghijklmnopqrstuvwxyz''"

definition upper_letters :: string where
  "upper_letters = ''ABCDEFGHIJKLMNOPQRSTUVWXYZ''"

definition toUpperChar :: "char \<Rightarrow> char" where
  "toUpperChar c =
     (case map_of (zip lower_letters upper_letters) c of Some d \<Rightarrow> d | None \<Rightarrow> c)"

definition toLowerChar :: "char \<Rightarrow> char" where
  "toLowerChar c =
     (case map_of (zip upper_letters lower_letters) c of Some d \<Rightarrow> d | None \<Rightarrow> c)"

definition toUpperCase :: "string \<Rightarrow> string" where
  "toUpperCase s = map toUpperChar s"

definition toLowerCase :: "string \<Rightarrow> string" where
  "toLowerCase s = map toLowerChar s"

text \<open>\<open>s.startsWith(p)\<close> is \<^const>\<open>prefix\<close>; \<open>s.includes(p)\<close> is written out.\<close>

fun str_includes :: "string \<Rightarrow> string \<Rightarrow> bool" where
  "str_includes [] p = (p = [])"
| "str_includes (c # cs) p = (prefix p (c # cs) \<or> str_includes cs p)"

text \<open>\<open>s.split(sep)\<close> for a one-character separator: never an empty array.\<close>

fun split_on :: "char \<Rightarrow> string \<Rightarrow> string list" where
  "split_on sep [] = [[]]"
| "split_on sep (c # cs) =
     (if c = sep then [] # split_on sep cs
      else (case split_on sep cs of
              [] \<Rightarrow> [[c]]
            | w # ws \<Rightarrow> (c # w) # ws))"

definition is_space :: "char \<Rightarrow> bool" where
  "is_space c = (c \<in> set [CHR '' '', CHR 0x09, CHR 0x0A, CHR 0x0B, CHR 0x0C, CHR 0x0D])"

definition trim :: "string \<Rightarrow> string" where
  "trim s = rev (dropWhile is_space (rev (dropWhile is_space s)))"

text \<open>\<open>x || d\<close> on a string that may be undefined: the empty string is falsy.\<close>

definition or_str :: "string option \<Rightarrow> string \<Rightarrow> string" where
  "or_str x d = (case x of None \<Rightarrow> d | Some s \<Rightarrow> if s = [] then d else s)"

text \<open>\<open>x || d\<close> on a number that may be undefined: zero is falsy.\<close>

definition or_int :: "int option \<Rightarrow> int \<Rightarrow> int" where
  "or_int x d = (case x of None \<Rightarrow> d | Some v \<Rightarrow> if v = 0 then d else v)"

datatype json =
    JNull
  | JBool bool
  | JNum int
  | JStr string
  | JArr "json list"
  | JObj "(string \<times> json) list"

text \<open>
  A response: status code, headers set on it, JSON body. A header value \<open>String(n)\<close>
  of a number is kept as the number.
\<close>

record response =
  res_status :: nat
  res_headers :: "(string \<times> json) list"
  res_body :: json

definition respond :: "nat \<Rightarrow> json \<Rightarrow> response" where
  "respond code b = \<lparr>res_status = code, res_headers = [], res_body = b\<rparr>"

section \<open>PermissionEngine (security/permissions.js)\<close>

abbreviation "SUPER_ADMIN \<equiv> ''SUPER_ADMIN''"
abbreviation "ADMIN \<equiv> ''ADMIN''"
abbreviation "MODERATOR \<equiv> ''MODERATOR''"
abbreviation "USER \<equiv> ''USER''"
abbreviation "READ_ONLY \<equiv> ''READ_ONLY''"

definition Roles :: "string list" where
  "Roles = [SUPER_ADMIN, ADMIN, MODERATOR, USER, READ_ONLY]"

abbreviation "SNIPPET_READ_SELF \<equiv> ''snippet.read.self''"
abbreviation "SNIPPET_WRITE_SELF \<equiv> ''snippet.write.self''"
abbreviation "SNIPPET_DELETE_SELF \<equiv> ''snippet.delete.self''"
abbreviation "SNIPPET_PUBLIC_PUBLISH \<equiv> ''snippet.public.publish''"
abbreviation "COMMUNITY_VIEW_PUBLIC \<equiv> ''community.view.public''"
abbreviation "ADMIN_PANEL_ACCESS \<equiv> ''admin.panel.access''"
abbreviation "ADMIN_USERS_READ \<equiv> ''admin.users.read''"
abbreviation "ADMIN_USERS_WRITE \<equiv> ''admin.users.write''"
abbreviation "ADMIN_SNIPPETS_MODERATE \<equiv> ''admin.snippets.moderate''"
abbreviation "ADMIN_SYSTEM_SETTINGS_WRITE \<equiv> ''admin.system.settings.write''"
abbreviation "ADMIN_AUDIT_READ \<equiv> ''admin.audit.read''"
abbreviation "MODERATION_QUEUE_READ \<equiv> ''moderation.queue.read''"
abbreviation "MODERATION_ACTIONS_WRITE \<equiv> ''moderation.actions.write''"

text \<open>\<open>Object.values(Permissions)\<close>, in declaration order.\<close>

definition Permissions :: "string list" where
  "Permissions =
     [SNIPPET_READ_SELF, SNIPPET_WRITE_SELF, SNIPPET_DELETE_SELF, SNIPPET_PUBLIC_PUBLISH,
      COMMUNITY_VIEW_PUBLIC, ADMIN_PANEL_ACCESS, ADMIN_USERS_READ, ADMIN_USERS_WRITE,
      ADMIN_SNIPPETS_MODERATE, ADMIN_SYSTEM_SETTINGS_WRITE, ADMIN_AUDIT_READ,
      MODERATION_QUEUE_READ, MODERATION_ACTIONS_WRITE]"

text \<open>
  The object \<open>rolePermissions\<close>: a lookup by key that is undefined (\<open>None\<close>) outside the
  five role names. Each JavaScript \<open>Set\<close> is the list of its members in insertion order.
\<close>

definition rolePermissions :: "string \<Rightarrow> string list option" where
  "rolePermissions r =
     (if r = SUPER_ADMIN then Some Permissions
      else if r = ADMIN then Some
        [SNIPPET_READ_SELF, SNIPPET_WRITE_SELF, SNIPPET_DELETE_SELF, SNIPPET_PUBLIC_PUBLISH,
         COMMUNITY_VIEW_PUBLIC, ADMIN_PANEL_ACCESS, ADMIN_USERS_READ, ADMIN_USERS_WRITE,
         ADMIN_SNIPPETS_MODERATE, ADMIN_SYSTEM_SETTINGS_WRITE, ADMIN_AUDIT_READ,
         MODERATION_QUEUE_READ, MODERATION_ACTIONS_WRITE]
      else if r = MODERATOR then Some
        [SNIPPET_READ_SELF, SNIPPET_WRITE_SELF, SNIPPET_DELETE_SELF, SNIPPET_PUBLIC_PUBLISH,
         COMMUNITY_VIEW_PUBLIC, ADMIN_PANEL_ACCESS, ADMIN_USERS_READ,
         ADMIN_SNIPPETS_MODERATE, MODERATION_QUEUE_READ, MODERATION_ACTIONS_WRITE,
         ADMIN_AUDIT_READ]
      else if r = USER then Some
        [SNIPPET_READ_SELF, SNIPPET_WRITE_SELF, SNIPPET_DELETE_SELF, SNIPPET_PUBLIC_PUBLISH,
         COMMUNITY_VIEW_PUBLIC]
      else if r = READ_ONLY then Some [SNIPPET_READ_SELF, COMMUNITY_VIEW_PUBLIC]
      else None)"

text \<open>
  \<open>normalizeRole(role)\<close>: the argument may be undefined (\<open>None\<close>); undefined and the empty
  string are falsy.
\<close>

definition normalizeRole :: "string option \<Rightarrow> string" where
  "normalizeRole role =
     (case role of
        None \<Rightarrow> USER
      | Some r \<Rightarrow>
          if r = [] then USER
          else (let normalized = toUpperCase r
                in if rolePermissions normalized \<noteq> None then normalized else USER))"

definition getPermissionsByRole :: "string option \<Rightarrow> string list" where
  "getPermissionsByRole role =
     (let normalizedRole = normalizeRole role
      in case rolePermissions normalizedRole of
           Some ps \<Rightarrow> ps
         | None \<Rightarrow> (case rolePermissions USER of Some ps \<Rightarrow> ps | None \<Rightarrow> []))"

definition hasPermission :: "string option \<Rightarrow> string \<Rightarrow> bool" where
  "hasPermission role permission =
     (if permission = [] then False else permission \<in> set (getPermissionsByRole role))"

text \<open>\<open>Array.from(set).sort()\<close>: the default sort compares strings by code unit.\<close>

definition getRolePermissionList :: "string option \<Rightarrow> string list" where
  "getRolePermissionList role = sort (getPermissionsByRole role)"

section \<open>The users table (repositories/userRepository.js)\<close>

text \<open>
  One row of the table \<open>users\<close>, with the columns of the schema. Timestamps are
  milliseconds since the epoch. The column \<open>locked_until\<close> holds a date-time text
  without a zone, \<open>YYYY-MM-DD HH:MM:SS.mmm\<close>; the model keeps the instant that this
  text names when it is read as UTC, which is the instant \<open>recordFailedLogin\<close> makes
  the text from. What the code reads back from the text is another matter
  (\<open>isLocked\<close>). The BOOLEAN columns hold 0 or 1 and are modelled as \<open>bool\<close>.
\<close>

record user =
  user_id :: int
  username :: string
  username_normalized :: string
  password_hash :: string
  oidc_id :: "string option"
  oidc_provider :: "string option"
  email :: "string option"
  name :: "string option"
  created_at :: int
  is_admin :: bool
  role :: string
  status :: string
  failed_login_attempts :: int
  locked_until :: "int option"
  force_password_reset :: bool
  session_version :: int
  last_login_at :: "int option"
  is_active :: bool

text \<open>
  The table is the list of its rows. An \<open>UPDATE ... WHERE\<close> statement rewrites every
  row that satisfies the condition and reports the number of rows changed. Statements
  do not fail in the model (a storage failure is outside it), and a handler runs from
  its first statement to its last without another request in between.
\<close>

definition sql_update :: "(user \<Rightarrow> bool) \<Rightarrow> (user \<Rightarrow> user) \<Rightarrow> user list \<Rightarrow> user list \<times> nat" where
  "sql_update cond set_cols db =
     (map (\<lambda>u. if cond u then set_cols u else u) db, length (filter cond db))"

definition findById :: "user list \<Rightarrow> int \<Rightarrow> user option" where
  "findById db i = find (\<lambda>u. user_id u = i) db"

text \<open>\<open>WHERE username_normalized = ? COLLATE NOCASE\<close>, called with the lower-cased name.\<close>

definition findByUsername :: "user list \<Rightarrow> string \<Rightarrow> user option" where
  "findByUsername db uname =
     find (\<lambda>u. toLowerCase (username_normalized u) = toLowerCase (toLowerCase uname)) db"

definition updateLastLoginStmt :: "int \<Rightarrow> int \<Rightarrow> user list \<Rightarrow> user list \<times> nat" where
  "updateLastLoginStmt current_timestamp i =
     sql_update (\<lambda>u. user_id u = i)
       (\<lambda>u. u\<lparr>last_login_at := Some current_timestamp, failed_login_attempts := 0,
               locked_until := None\<rparr>)"

definition updateFailedLoginStmt :: "int \<Rightarrow> int option \<Rightarrow> int \<Rightarrow> user list \<Rightarrow> user list \<times> nat" where
  "updateFailedLoginStmt attempts locked i =
     sql_update (\<lambda>u. user_id u = i)
       (\<lambda>u. u\<lparr>failed_login_attempts := attempts, locked_until := locked\<rparr>)"

definition resetFailedLoginStmt :: "int \<Rightarrow> user list \<Rightarrow> user list \<times> nat" where
  "resetFailedLoginStmt i =
     sql_update (\<lambda>u. user_id u = i)
       (\<lambda>u. u\<lparr>failed_login_attempts := 0, locked_until := None\<rparr>)"

definition unlockUserStmt :: "int \<Rightarrow> user list \<Rightarrow> user list \<times> nat" where
  "unlockUserStmt i =
     sql_update (\<lambda>u. user_id u = i \<and> user_id u \<noteq> 0)
       (\<lambda>u. u\<lparr>failed_login_attempts := 0, locked_until := None, status := ''ACTIVE''\<rparr>)"

definition updateStatusStmt :: "string \<Rightarrow> string \<Rightarrow> int \<Rightarrow> user list \<Rightarrow> user list \<times> nat" where
  "updateStatusStmt st st2 i =
     sql_update (\<lambda>u. user_id u = i \<and> user_id u \<noteq> 0)
       (\<lambda>u. u\<lparr>status := st, is_active := (if st2 = ''SUSPENDED'' then False else True)\<rparr>)"

definition updateRoleStmt :: "string \<Rightarrow> string \<Rightarrow> int \<Rightarrow> user list \<Rightarrow> user list \<times> nat" where
  "updateRoleStmt r r2 i =
     sql_update (\<lambda>u. user_id u = i \<and> user_id u \<noteq> 0)
       (\<lambda>u. u\<lparr>role := r, is_admin := (if r2 \<in> set [SUPER_ADMIN, ADMIN] then True else False)\<rparr>)"

definition incrementSessionVersionStmt :: "int \<Rightarrow> user list \<Rightarrow> user list \<times> nat" where
  "incrementSessionVersionStmt i =
     sql_update (\<lambda>u. user_id u = i \<and> user_id u \<noteq> 0)
       (\<lambda>u. u\<lparr>session_version := session_version u + 1\<rparr>)"

definition setForcePasswordResetStmt :: "bool \<Rightarrow> int \<Rightarrow> user list \<Rightarrow> user list \<times> nat" where
  "setForcePasswordResetStmt v i =
     sql_update (\<lambda>u. user_id u = i \<and> user_id u \<noteq> 0)
       (\<lambda>u. u\<lparr>force_password_reset := v, session_version := session_version u + 1\<rparr>)"

text \<open>
  A JavaScript \<open>Date\<close> holds a time value of at most 8.64e15 milliseconds either side
  of the epoch; \<open>new Date(v)\<close> beyond that is an invalid date, on which \<open>toISOString()\<close>
  throws a RangeError.
\<close>

definition valid_date :: "int \<Rightarrow> bool" where
  "valid_date t = (- 8640000000000000 \<le> t \<and> t \<le> 8640000000000000)"

text \<open>
  \<open>recordFailedLogin(user, {maxAttempts, lockoutMinutes})\<close>: \<open>now\<close> is the value of
  \<open>Date.now()\<close>. The counter is read from the user object passed in, not from the table.
  The caller always passes both numbers of the policy. The result is \<open>None\<close> when
  \<open>toISOString()\<close> throws, which is before the UPDATE; \<open>lockedUntil\<close> is \<open>Some None\<close>
  for \<open>null\<close>.
\<close>

definition recordFailedLogin ::
  "int \<Rightarrow> user option \<Rightarrow> int \<Rightarrow> int \<Rightarrow> user list \<Rightarrow> user list option" where
  "recordFailedLogin now usr maxAttempts lockoutMinutes db =
     (case usr of
        None \<Rightarrow> Some db
      | Some u \<Rightarrow>
          (let currentAttempts = or_int (Some (failed_login_attempts u)) 0;
               nextAttempts = currentAttempts + 1;
               lockedUntil =
                 (if nextAttempts \<ge> maxAttempts
                  then (if valid_date (now + max 1 lockoutMinutes * 60 * 1000)
                        then Some (Some (now + max 1 lockoutMinutes * 60 * 1000))
                        else None)
                  else Some None)
           in case lockedUntil of
                None \<Rightarrow> None
              | Some l \<Rightarrow> Some (fst (updateFailedLoginStmt nextAttempts l (user_id u) db))))"

definition updateLastLogin :: "int \<Rightarrow> int \<Rightarrow> user list \<Rightarrow> user list" where
  "updateLastLogin current_timestamp i db = fst (updateLastLoginStmt current_timestamp i db)"

definition resetFailedLoginAttempts :: "int \<Rightarrow> user list \<Rightarrow> user list" where
  "resetFailedLoginAttempts i db = fst (resetFailedLoginStmt i db)"

definition unlockUser :: "int \<Rightarrow> user list \<Rightarrow> user list \<times> user option" where
  "unlockUser i db =
     (let (db', changes) = unlockUserStmt i db
      in if changes = 0 then (db', None) else (db', findById db' i))"

definition updateRole :: "int \<Rightarrow> string \<Rightarrow> user list \<Rightarrow> user list \<times> user option" where
  "updateRole i r db =
     (let (db', changes) = updateRoleStmt r r i db
      in if changes = 0 then (db', None) else (db', findById db' i))"

definition updateStatus :: "int \<Rightarrow> string \<Rightarrow> user list \<Rightarrow> user list \<times> user option" where
  "updateStatus i st db =
     (let (db', changes) = updateStatusStmt st st i db
      in if changes = 0 then (db', None) else (db', findById db' i))"

definition incrementSessionVersion :: "int \<Rightarrow> user list \<Rightarrow> user list \<times> bool" where
  "incrementSessionVersion i db =
     (let (db', changes) = incrementSessionVersionStmt i db in (db', changes > 0))"

definition setForcePasswordReset :: "int \<Rightarrow> bool \<Rightarrow> user list \<Rightarrow> user list \<times> bool" where
  "setForcePasswordReset i forcePasswordReset db =
     (let (db', changes) =
            setForcePasswordResetStmt (if forcePasswordReset then True else False) i db
      in (db', changes > 0))"

section \<open>Collaborators, requests and the audit log\<close>

text \<open>
  The payload of a session token. A token signed before session versions existed has no
  \<open>sessionVersion\<close>.
\<close>

record payload =
  p_id :: int
  p_username :: string
  p_role :: string
  p_status :: string
  p_sessionVersion :: "int option"

text \<open>
  The process environment and the primitives consumed from collaborators: password
  hashing (\<open>bcrypt\<close>), credential signing and verification (\<open>jsonwebtoken\<close>, where
  \<open>jwt.verify\<close> throws on a bad or expired token: \<open>None\<close>), the random name of
  the anonymous user, and the date parser of the runtime. \<open>parse_local_time t\<close> is
  \<open>new Date(text).getTime()\<close> for the zone-less text that names \<open>t\<close> in UTC: a text
  without a zone is read as local time, so the value depends on the zone of the server
  process (in a zone at UTC it is \<open>t\<close>; two hours east of UTC it is \<open>t\<close> less two
  hours); \<open>None\<close> is \<open>NaN\<close>, for a text the parser does not accept.
\<close>

record env =
  DISABLE_ACCOUNTS :: bool
  DISABLE_INTERNAL_ACCOUNTS :: bool
  BASE_PATH :: string
  bcrypt_compare :: "string \<Rightarrow> string \<Rightarrow> bool"
  bcrypt_hash :: "string \<Rightarrow> string"
  jwt_sign :: "payload \<Rightarrow> string"
  jwt_verify :: "string \<Rightarrow> payload option"
  generateAnonymousUsername :: string
  parse_local_time :: "int \<Rightarrow> int option"

text \<open>
  The values read from the settings store by \<open>getSetting\<close> and
  \<open>getFoundationSettings\<close>; the numeric settings are integers.
\<close>

record settings =
  registration_mode :: string
  maintenance_mode :: string
  lockout_maxAttempts :: int
  lockout_durationMinutes :: int
  rateLimit_windowMs :: int
  rateLimit_authMax :: int
  rateLimit_publicMax :: int
  rateLimit_generalMax :: int

text \<open>The user object that identity resolution attaches to a request.\<close>

record req_user =
  ru_id :: int
  ru_username :: string
  ru_role :: "string option"
  ru_status :: string
  ru_is_admin :: bool
  ru_session_version :: int
  ru_force_password_reset :: bool
  ru_permissions :: "string list option"

record request =
  req_path :: string
  bytestashauth :: "string option"
  cookie_token :: "string option"
  x_forwarded_for :: "string option"
  req_ip :: "string option"
  req_user :: "req_user option"
  req_apiKey :: bool

datatype outcome = Next request | Respond response

text \<open>
  One row of \<open>audit_logs\<close>; the client address and user agent taken from the request
  are left out.
\<close>

record audit_entry =
  actor_id :: "int option"
  action :: string
  target_type :: "string option"
  target_id :: json
  metadata :: json

text \<open>
  The durable state a route handler works on. \<open>verify_calls\<close> counts the calls of
  \<open>userRepository.verifyPassword\<close>, so that "the password is not checked" can be stated.
\<close>

record store =
  users :: "user list"
  audit_logs :: "audit_entry list"
  verify_calls :: nat

definition audit_log :: "audit_entry \<Rightarrow> store \<Rightarrow> store" where
  "audit_log e st = (if action e = [] then st else st\<lparr>audit_logs := audit_logs st @ [e]\<rparr>)"

section \<open>Identity resolution (middleware/auth.js)\<close>

definition truthy :: "string option \<Rightarrow> bool" where
  "truthy x = (case x of None \<Rightarrow> False | Some s \<Rightarrow> s \<noteq> [])"

definition nth_opt :: "'a list \<Rightarrow> nat \<Rightarrow> 'a option" where
  "nth_opt xs i = (if i < length xs then Some (xs ! i) else None)"

definition getTokenFromRequest :: "request \<Rightarrow> string option" where
  "getTokenFromRequest req =
     (let authHeader = bytestashauth req;
          token = (if truthy authHeader
                   then (case authHeader of None \<Rightarrow> None
                         | Some h \<Rightarrow> nth_opt (split_on CHR '' '' h) 1)
                   else authHeader);
          token' = (if \<not> truthy token then cookie_token req else token)
      in if truthy token' then token' else None)"

definition session_payload :: "user \<Rightarrow> payload" where
  "session_payload u =
     \<lparr>p_id = user_id u,
      p_username = username u,
      p_role = or_str (Some (role u)) USER,
      p_status = or_str (Some (status u)) ''ACTIVE'',
      p_sessionVersion = Some (or_int (Some (session_version u)) 1)\<rparr>"

text \<open>\<open>createSessionToken(user)\<close>, without extra payload.\<close>

definition createSessionToken :: "env \<Rightarrow> user \<Rightarrow> string" where
  "createSessionToken e u = jwt_sign e (session_payload u)"

definition user_of_row :: "user \<Rightarrow> req_user" where
  "user_of_row u =
     \<lparr>ru_id = user_id u, ru_username = username u, ru_role = Some (role u),
      ru_status = status u, ru_is_admin = is_admin u,
      ru_session_version = session_version u,
      ru_force_password_reset = force_password_reset u, ru_permissions = None\<rparr>"

text \<open>
  \<open>createAnonymousUser\<close>: \<open>INSERT ... ON CONFLICT(id) DO NOTHING\<close> of the row with id 0;
  the caller gets an object literal, not the row.
\<close>

definition createAnonymousUser :: "int \<Rightarrow> string \<Rightarrow> user list \<Rightarrow> user list \<times> req_user" where
  "createAnonymousUser now uname db =
     ((if findById db 0 \<noteq> None then db
       else db @
         [\<lparr>user_id = 0, username = uname, username_normalized = toLowerCase uname,
           password_hash = [], oidc_id = None, oidc_provider = None, email = None,
           name = None, created_at = now, is_admin = False, role = READ_ONLY,
           status = ''ACTIVE'', failed_login_attempts = 0, locked_until = None,
           force_password_reset = False, session_version = 1, last_login_at = None,
           is_active = True\<rparr>]),
      \<lparr>ru_id = 0, ru_username = uname, ru_role = Some READ_ONLY, ru_status = ''ACTIVE'',
       ru_is_admin = False, ru_session_version = 1, ru_force_password_reset = False,
       ru_permissions = None\<rparr>)"

definition getOrCreateAnonymousUser :: "env \<Rightarrow> int \<Rightarrow> user list \<Rightarrow> user list \<times> req_user" where
  "getOrCreateAnonymousUser e now db =
     (case findById db 0 of
        Some existingUser \<Rightarrow> (db, user_of_row existingUser)
      | None \<Rightarrow> createAnonymousUser now (generateAnonymousUsername e) db)"

definition authenticateToken :: "env \<Rightarrow> int \<Rightarrow> request \<Rightarrow> user list \<Rightarrow> outcome \<times> user list" where
  "authenticateToken e now req db =
     (if req_user req \<noteq> None \<and> req_apiKey req then (Next req, db)
      else if DISABLE_ACCOUNTS e then
        (let (db', anonymousUser) = getOrCreateAnonymousUser e now db
         in (Next (req\<lparr>req_user := Some anonymousUser\<rparr>), db'))
      else
        (case getTokenFromRequest req of
           None \<Rightarrow>
             (Respond (respond 401 (JObj [(''error'', JStr ''Authentication required'')])), db)
         | Some token \<Rightarrow>
             (case jwt_verify e token of
                None \<Rightarrow> (Respond (respond 403 (JObj [(''error'', JStr ''Invalid token'')])), db)
              | Some decoded \<Rightarrow>
                  (case findById db (p_id decoded) of
                     None \<Rightarrow>
                       (Respond (respond 401 (JObj [(''error'', JStr ''User not found'')])), db)
                   | Some dbUser \<Rightarrow>
                       if status dbUser = ''SUSPENDED'' \<or> \<not> is_active dbUser then
                         (Respond (respond 403 (JObj [(''error'', JStr ''Account suspended'')])), db)
                       else if or_int (p_sessionVersion decoded) 1
                               \<noteq> or_int (Some (session_version dbUser)) 1 then
                         (Respond (respond 401 (JObj [(''error'', JStr ''Session expired'')])), db)
                       else
                         (Next (req\<lparr>req_user := Some
                            \<lparr>ru_id = user_id dbUser,
                             ru_username = username dbUser,
                             ru_role = Some (or_str (Some (role dbUser)) USER),
                             ru_status = or_str (Some (status dbUser)) ''ACTIVE'',
                             ru_is_admin = is_admin dbUser,
                             ru_session_version = or_int (Some (session_version dbUser)) 1,
                             ru_force_password_reset = force_password_reset dbUser,
                             ru_permissions = None\<rparr>\<rparr>), db)))))"

section \<open>Permission gate (security/aclMiddleware.js)\<close>

definition attachPermissionContext :: "request \<Rightarrow> request" where
  "attachPermissionContext req =
     (case req_user req of
        None \<Rightarrow> req
      | Some u \<Rightarrow>
          (let r = normalizeRole (ru_role u)
           in req\<lparr>req_user := Some (u\<lparr>ru_role := Some r,
                                          ru_permissions := Some (getRolePermissionList (Some r))\<rparr>)\<rparr>))"

definition requirePermission :: "string \<Rightarrow> request \<Rightarrow> outcome" where
  "requirePermission permission req =
     (case req_user req of
        None \<Rightarrow> Respond (respond 401 (JObj [(''message'', JStr ''Authentication required'')]))
      | Some u \<Rightarrow>
          (let r = normalizeRole (ru_role u)
           in if \<not> hasPermission (Some r) permission
              then Respond (respond 403 (JObj [(''message'', JStr ''Insufficient permissions'')]))
              else Next req))"

definition requireAnyPermission :: "string list \<Rightarrow> request \<Rightarrow> outcome" where
  "requireAnyPermission permissions req =
     (case req_user req of
        None \<Rightarrow> Respond (respond 401 (JObj [(''message'', JStr ''Authentication required'')]))
      | Some u \<Rightarrow>
          (let r = normalizeRole (ru_role u);
               granted = list_ex (\<lambda>permission. hasPermission (Some r) permission) permissions
           in if \<not> granted
              then Respond (respond 403 (JObj [(''message'', JStr ''Insufficient permissions'')]))
              else Next req))"

section \<open>Maintenance gate (core/maintenanceMode.js)\<close>

definition BypassApiPrefixes :: "string list" where
  "BypassApiPrefixes = [''/api/auth/config'', ''/api/auth/login'', ''/api/auth/oidc'']"

definition isMaintenanceEnabled :: "settings \<Rightarrow> bool" where
  "isMaintenanceEnabled s =
     (toUpperCase (maintenance_mode s) \<in> set [''ON'', ''TRUE'', ''1'', ''ENABLED''])"

definition hasBypassPath :: "string \<Rightarrow> string \<Rightarrow> bool" where
  "hasBypassPath basePath requestPath =
     (if str_includes requestPath ''/api-docs'' then True
      else list_ex (\<lambda>pfx. prefix (basePath @ pfx) requestPath) BypassApiPrefixes)"

definition maintenance_response :: response where
  "maintenance_response = respond 503 (JObj [(''error'', JStr ''Maintenance mode is enabled'')])"

text \<open>
  The guard reads the token with its own copy of \<open>getTokenFromRequest\<close>, the same
  function as the one of the identity middleware. Every exception in the \<open>try\<close> block
  (here: \<open>jwt.verify\<close> throwing) ends in the \<open>catch\<close> branch.
\<close>

definition maintenanceModeGuard :: "env \<Rightarrow> settings \<Rightarrow> request \<Rightarrow> user list \<Rightarrow> outcome" where
  "maintenanceModeGuard e s req db =
     (if \<not> isMaintenanceEnabled s then Next req
      else
        (let basePath = BASE_PATH e
         in if \<not> prefix (basePath @ ''/api'') (req_path req)
               \<and> \<not> str_includes (req_path req) ''/api-docs'' then Next req
            else if hasBypassPath basePath (req_path req) then Next req
            else
              (case getTokenFromRequest req of
                 None \<Rightarrow> Respond maintenance_response
               | Some token \<Rightarrow>
                   (case jwt_verify e token of
                      None \<Rightarrow> Respond maintenance_response
                    | Some decoded \<Rightarrow>
                        (let usr = findById db (p_id decoded);
                             r = toUpperCase
                                   (case usr of None \<Rightarrow> [] | Some u \<Rightarrow> or_str (Some (role u)) [])
                         in if r = SUPER_ADMIN \<or> r = ADMIN then Next req
                            else Respond maintenance_response)))))"

section \<open>Rate limiter (security/rateLimiter.js)\<close>

record bucket =
  count :: int
  windowStart :: int
  windowMs :: int

type_synonym buckets = "string \<Rightarrow> bucket option"

definition getClientIp :: "request \<Rightarrow> string" where
  "getClientIp req =
     (let forwarded =
            (case x_forwarded_for req of
               None \<Rightarrow> None
             | Some h \<Rightarrow> (case split_on CHR '','' h of [] \<Rightarrow> None | w # _ \<Rightarrow> Some (trim w)))
      in if truthy forwarded then or_str forwarded ''unknown''
         else or_str (req_ip req) ''unknown'')"

definition getScopeLimit :: "string \<Rightarrow> settings \<Rightarrow> int" where
  "getScopeLimit scope s =
     (if scope = ''auth'' then rateLimit_authMax s
      else if scope = ''public'' then rateLimit_publicMax s
      else rateLimit_generalMax s)"

text \<open>\<open>Math.ceil(a / 1000)\<close> on an integer \<open>a\<close>.\<close>

definition ceil_div_1000 :: "int \<Rightarrow> int" where
  "ceil_div_1000 a = - ((- a) div 1000)"

text \<open>
  The filter returned by \<open>createRateLimiter(scope)\<close>, applied to one request at time
  \<open>now\<close>: the outcome, the headers set on the response, and the bucket map afterwards.
\<close>

definition createRateLimiter ::
  "string \<Rightarrow> settings \<Rightarrow> int \<Rightarrow> request \<Rightarrow> buckets \<Rightarrow> outcome \<times> (string \<times> json) list \<times> buckets" where
  "createRateLimiter scope s now req bs =
     (let wMs = rateLimit_windowMs s;
          limit = getScopeLimit scope s;
          clientIp = getClientIp req;
          key = scope @ '':'' @ clientIp;
          fresh = (Next req,
                   [(''X-RateLimit-Limit'', JNum limit), (''X-RateLimit-Remaining'', JNum (limit - 1))],
                   bs(key \<mapsto> \<lparr>count = 1, windowStart = now, windowMs = wMs\<rparr>))
      in case bs key of
           None \<Rightarrow> fresh
         | Some existing \<Rightarrow>
             if now - windowStart existing \<ge> wMs then fresh
             else
               (let existing' = existing\<lparr>count := count existing + 1\<rparr>;
                    bs' = bs(key \<mapsto> existing');
                    remaining = max 0 (limit - count existing');
                    hdrs = [(''X-RateLimit-Limit'', JNum limit),
                            (''X-RateLimit-Remaining'', JNum remaining)]
                in if count existing' > limit then
                     (let retryAfterSeconds =
                            ceil_div_1000 (windowStart existing + wMs - now);
                          hdrs' = hdrs @ [(''Retry-After'', JNum (max 1 retryAfterSeconds))]
                      in (Respond \<lparr>res_status = 429, res_headers = hdrs',
                                   res_body = JObj [(''error'', JStr ''Too many requests''),
                                                    (''scope'', JStr scope)]\<rparr>,
                          hdrs', bs'))
                   else (Next req, hdrs, bs')))"

text \<open>The periodic sweep of \<open>startCleanupLoop\<close>.\<close>

definition cleanup :: "int \<Rightarrow> buckets \<Rightarrow> buckets" where
  "cleanup now bs =
     (\<lambda>key. case bs key of
               None \<Rightarrow> None
             | Some v \<Rightarrow> if now - windowStart v > windowMs v * 2 then None else Some v)"

section \<open>Login and registration (routes/authRoutes.js)\<close>

definition RegistrationModes :: "string list" where
  "RegistrationModes = [''OPEN'', ''APPROVAL'', ''CLOSED'']"

definition normalizeRegistrationMode :: "string \<Rightarrow> string" where
  "normalizeRegistrationMode m =
     (let upper = toUpperCase (or_str (Some m) [])
      in if upper \<in> set RegistrationModes then upper else ''OPEN'')"

definition jopt_str :: "string option \<Rightarrow> json" where
  "jopt_str x = (case x of None \<Rightarrow> JNull | Some v \<Rightarrow> JStr v)"

definition jopt_num :: "int option \<Rightarrow> json" where
  "jopt_num x = (case x of None \<Rightarrow> JNull | Some v \<Rightarrow> JNum v)"

definition buildUserResponse :: "user \<Rightarrow> json" where
  "buildUserResponse u =
     (let permissions = getRolePermissionList (Some (or_str (Some (role u)) USER))
      in JObj
        [(''id'', JNum (user_id u)),
         (''username'', JStr (username u)),
         (''created_at'', JNum (created_at u)),
         (''email'', jopt_str (email u)),
         (''name'', jopt_str (name u)),
         (''role'', JStr (or_str (Some (role u)) USER)),
         (''status'', JStr (or_str (Some (status u)) ''ACTIVE'')),
         (''permissions'', JArr (map JStr permissions)),
         (''is_admin'', JBool (ADMIN_PANEL_ACCESS \<in> set permissions)),
         (''is_active'', JBool (is_active u)),
         (''force_password_reset'', JBool (force_password_reset u)),
         (''last_login_at'', jopt_num (last_login_at u))])"

text \<open>
  \<open>isLocked(user)\<close>: \<open>new Date(user.locked_until).getTime() > Date.now()\<close>, where the
  stored text is parsed by the runtime; a comparison with \<open>NaN\<close> is false.
\<close>

definition isLocked :: "env \<Rightarrow> int \<Rightarrow> user \<Rightarrow> bool" where
  "isLocked e now u =
     (case locked_until u of
        None \<Rightarrow> False
      | Some t \<Rightarrow> (case parse_local_time e t of None \<Rightarrow> False | Some v \<Rightarrow> v > now))"

text \<open>
  \<open>verifyPassword(user, password)\<close>: false without a hash; otherwise \<open>bcrypt.compare\<close>,
  which throws (\<open>None\<close>) when the request carried no password.
\<close>

definition verifyPassword :: "env \<Rightarrow> user \<Rightarrow> string option \<Rightarrow> bool option" where
  "verifyPassword e u password =
     (if password_hash u = [] then Some False
      else (case password of
              None \<Rightarrow> None
            | Some pw \<Rightarrow> Some (bcrypt_compare e pw (password_hash u))))"

definition login_error :: response where
  "login_error = respond 500 (JObj [(''error'', JStr ''An error occurred during login'')])"

text \<open>
  \<open>POST /login\<close>. \<open>now\<close> is the clock read by \<open>isLocked\<close>; \<open>now'\<close> is the clock after
  the password check, read by \<open>recordFailedLogin\<close> and by \<open>CURRENT_TIMESTAMP\<close>. A request
  body without a username makes \<open>findByUsername\<close> throw, which the handler turns
  into 500, as it does the RangeError of \<open>recordFailedLogin\<close>.
\<close>

definition login ::
  "env \<Rightarrow> settings \<Rightarrow> int \<Rightarrow> int \<Rightarrow> string option \<Rightarrow> string option \<Rightarrow> store \<Rightarrow> response \<times> store" where
  "login e s now now' uname password st =
     (if DISABLE_INTERNAL_ACCOUNTS e then
        (respond 403 (JObj [(''error'', JStr ''Internal accounts are disabled'')]), st)
      else
        (case uname of
           None \<Rightarrow> (login_error, st)
         | Some un \<Rightarrow>
        (case findByUsername (users st) un of
           None \<Rightarrow>
             (respond 401 (JObj [(''error'', JStr ''Invalid credentials'')]),
              audit_log \<lparr>actor_id = None, action = ''auth.login.failed'',
                         target_type = Some ''user'', target_id = JStr un,
                         metadata = JObj [(''reason'', JStr ''user_not_found''),
                                          (''username'', JStr un)]\<rparr> st)
         | Some u \<Rightarrow>
             if isLocked e now u then
               (respond 423
                  (JObj [(''error'', JStr ''Account temporarily locked due to failed login attempts''),
                         (''lockedUntil'', jopt_num (locked_until u))]),
                audit_log \<lparr>actor_id = Some (user_id u), action = ''auth.login.blocked'',
                           target_type = Some ''user'', target_id = JNum (user_id u),
                           metadata = JObj [(''reason'', JStr ''account_locked''),
                                            (''lockedUntil'', jopt_num (locked_until u))]\<rparr> st)
             else
               (let st1 = st\<lparr>verify_calls := verify_calls st + 1\<rparr>
                in case verifyPassword e u password of
                     None \<Rightarrow> (login_error, st1)
                   | Some isPasswordValid \<Rightarrow>
                       if \<not> isPasswordValid then
                         (case recordFailedLogin now' (Some u)
                                 (lockout_maxAttempts s) (lockout_durationMinutes s) (users st1) of
                            None \<Rightarrow> (login_error, st1)
                          | Some db' \<Rightarrow>
                              (respond 401 (JObj [(''error'', JStr ''Invalid credentials'')]),
                               audit_log
                                 \<lparr>actor_id = Some (user_id u), action = ''auth.login.failed'',
                                  target_type = Some ''user'', target_id = JNum (user_id u),
                                  metadata = JObj [(''reason'', JStr ''invalid_password'')]\<rparr>
                                 (st1\<lparr>users := db'\<rparr>)))
                       else if status u = ''PENDING'' then
                         (respond 403 (JObj [(''error'', JStr ''Account pending approval'')]),
                          audit_log \<lparr>actor_id = Some (user_id u), action = ''auth.login.blocked'',
                                     target_type = Some ''user'', target_id = JNum (user_id u),
                                     metadata = JObj [(''reason'', JStr ''pending_approval'')]\<rparr> st1)
                       else if status u = ''SUSPENDED'' \<or> \<not> is_active u then
                         (respond 403 (JObj [(''error'', JStr ''Account suspended'')]),
                          audit_log \<lparr>actor_id = Some (user_id u), action = ''auth.login.blocked'',
                                     target_type = Some ''user'', target_id = JNum (user_id u),
                                     metadata = JObj [(''reason'', JStr ''suspended'')]\<rparr> st1)
                       else
                         (let st2 = st1\<lparr>users := updateLastLogin now' (user_id u) (users st1)\<rparr>
                          in case findById (users st2) (user_id u) of
                               None \<Rightarrow> (login_error, st2)
                             | Some refreshedUser \<Rightarrow>
                                 (let token = createSessionToken e refreshedUser
                                  in (\<lparr>res_status = 200,
                                       res_headers = [(''Set-Cookie'', JStr token)],
                                       res_body = JObj [(''token'', JStr token),
                                                        (''user'', buildUserResponse refreshedUser)]\<rparr>,
                                      audit_log
                                        \<lparr>actor_id = Some (user_id u), action = ''auth.login.success'',
                                         target_type = Some ''user'', target_id = JNum (user_id u),
                                         metadata = JObj [(''role'', JStr (role refreshedUser))]\<rparr>
                                        st2)))))))"

text \<open>
  An exception: an \<open>Error\<close> with its message, or the \<open>SqliteError\<close> of the driver
  with its code and message.
\<close>

datatype js_error = JsError string | SqliteError string string

definition error_message :: "js_error \<Rightarrow> string" where
  "error_message err = (case err of JsError msg \<Rightarrow> msg | SqliteError _ msg \<Rightarrow> msg)"

text \<open>
  \<open>userRepository.create(username, password, options)\<close>: the UNIQUE constraints on
  \<open>username\<close> and on \<open>username_normalized COLLATE NOCASE\<close> make the insert throw a
  \<open>SqliteError\<close> with the code \<open>SQLITE_CONSTRAINT_UNIQUE\<close>. The \<open>catch\<close> block
  (\<open>create_catch\<close>) replaces an error whose code is \<open>SQLITE_CONSTRAINT\<close> and throws
  every other error on as it is. AUTOINCREMENT gives an id above every id of the table.
\<close>

definition next_rowid :: "user list \<Rightarrow> int" where
  "next_rowid db = fold max (map user_id db) 0 + 1"

definition create_catch :: "js_error \<Rightarrow> js_error" where
  "create_catch err =
     (case err of
        SqliteError code msg \<Rightarrow>
          if code = ''SQLITE_CONSTRAINT'' then JsError ''Username already exists'' else err
      | JsError msg \<Rightarrow> err)"

definition create ::
  "env \<Rightarrow> int \<Rightarrow> string \<Rightarrow> string \<Rightarrow> string option \<Rightarrow> string option \<Rightarrow> user list
   \<Rightarrow> js_error + (user list \<times> user option)" where
  "create e now uname password opt_role opt_status db =
     (let passwordHash = bcrypt_hash e password;
          normalizedUsername = toLowerCase uname;
          r = or_str opt_role USER;
          st = or_str opt_status ''ACTIVE''
      in if list_ex (\<lambda>u. username u = uname) db then
           Inl (create_catch (SqliteError ''SQLITE_CONSTRAINT_UNIQUE''
                                ''UNIQUE constraint failed: users.username''))
         else if list_ex (\<lambda>u. toLowerCase (username_normalized u)
                                = toLowerCase normalizedUsername) db then
           Inl (create_catch (SqliteError ''SQLITE_CONSTRAINT_UNIQUE''
                                ''UNIQUE constraint failed: users.username_normalized''))
         else
           (let lastInsertRowid = next_rowid db;
                db' = db @
                  [\<lparr>user_id = lastInsertRowid, username = uname,
                    username_normalized = normalizedUsername, password_hash = passwordHash,
                    oidc_id = None, oidc_provider = None, email = None, name = None,
                    created_at = now, is_admin = False, role = r, status = st,
                    failed_login_attempts = 0, locked_until = None,
                    force_password_reset = False, session_version = 1,
                    last_login_at = None, is_active = True\<rparr>]
            in Inr (db', findById db' lastInsertRowid)))"

text \<open>
  Modelled from the spec: services/userService.js is not among the sources. Its
  \<open>createUser(username, password, options)\<close> is taken to check its input (the
  parameter \<open>validate\<close> gives the message of the error thrown, if any) and then to
  call \<open>userRepository.create\<close> with the same options.
\<close>

definition createUser ::
  "(string \<Rightarrow> string \<Rightarrow> string option) \<Rightarrow> env \<Rightarrow> int \<Rightarrow> string \<Rightarrow> string \<Rightarrow> string option
   \<Rightarrow> string option \<Rightarrow> user list \<Rightarrow> js_error + (user list \<times> user option)" where
  "createUser validate e now uname password opt_role opt_status db =
     (case validate uname password of
        Some msg \<Rightarrow> Inl (JsError msg)
      | None \<Rightarrow> create e now uname password opt_role opt_status db)"

text \<open>
  \<open>POST /register\<close>, from the creation of the account on. The snippet migration run
  for the first user does not touch the users table and is left out. Reading \<open>user.id\<close>
  of a missing row throws a TypeError, which the handler turns into 400.
\<close>

definition register_create ::
  "(string \<Rightarrow> string \<Rightarrow> string option) \<Rightarrow> env \<Rightarrow> int \<Rightarrow> string \<Rightarrow> string \<Rightarrow> string
   \<Rightarrow> string \<Rightarrow> string \<Rightarrow> store \<Rightarrow> response \<times> store" where
  "register_create validate e now uname password registrationMode desiredRole desiredStatus st =
     (case createUser validate e now uname password
             (Some desiredRole) (Some desiredStatus) (users st) of
        Inl err \<Rightarrow> (respond 400 (JObj [(''error'', JStr (error_message err))]), st)
      | Inr (db', None) \<Rightarrow>
          (respond 400 (JObj [(''error'', JStr ''Cannot read properties of undefined'')]),
           st\<lparr>users := db'\<rparr>)
      | Inr (db', Some u) \<Rightarrow>
          (let st' = audit_log
                 \<lparr>actor_id = Some (user_id u), action = ''user.registration'',
                  target_type = Some ''user'', target_id = JNum (user_id u),
                  metadata = JObj [(''role'', JStr (role u)),
                                   (''status'', JStr (status u)),
                                   (''registrationMode'', JStr registrationMode)]\<rparr>
                 (st\<lparr>users := db'\<rparr>)
           in if desiredStatus = ''PENDING'' then
                (respond 202
                   (JObj [(''pendingApproval'', JBool True),
                          (''message'', JStr ''Registration submitted and awaiting admin approval''),
                          (''user'', buildUserResponse u)]),
                 st')
              else
                (let token = createSessionToken e u
                 in (\<lparr>res_status = 200,
                      res_headers = [(''Set-Cookie'', JStr token)],
                      res_body = JObj [(''token'', JStr token),
                                       (''user'', buildUserResponse u)]\<rparr>,
                     st'))))"

text \<open>\<open>POST /register\<close>: the gate, the count of users other than id 0, the mode.\<close>

definition register ::
  "(string \<Rightarrow> string \<Rightarrow> string option) \<Rightarrow> env \<Rightarrow> settings \<Rightarrow> int \<Rightarrow> string \<Rightarrow> string \<Rightarrow> store
   \<Rightarrow> response \<times> store" where
  "register validate e s now uname password st =
     (if DISABLE_INTERNAL_ACCOUNTS e then
        (respond 403 (JObj [(''error'', JStr ''Internal account registration is disabled'')]), st)
      else
        (let userCount = length (filter (\<lambda>u. user_id u \<noteq> 0) (users st));
             hasUsers = (userCount > 0);
             registrationMode = normalizeRegistrationMode (registration_mode s)
         in if \<not> hasUsers then
              register_create validate e now uname password registrationMode
                SUPER_ADMIN ''ACTIVE'' st
            else if registrationMode = ''CLOSED'' then
              (respond 403 (JObj [(''error'', JStr ''New account registration is closed'')]), st)
            else if registrationMode = ''APPROVAL'' then
              register_create validate e now uname password registrationMode
                USER ''PENDING'' st
            else
              register_create validate e now uname password registrationMode
                USER ''ACTIVE'' st))"

section \<open>Admin routes (routes/adminRoutes.js)\<close>

definition editableRoles :: "string list" where
  "editableRoles = Roles"

definition editableStatuses :: "string list" where
  "editableStatuses = [''PENDING'', ''ACTIVE'', ''SUSPENDED'']"

definition assertNotSelfMutation :: "req_user \<Rightarrow> int \<Rightarrow> string option" where
  "assertNotSelfMutation actor userId =
     (if userId = ru_id actor then Some ''Cannot modify your own account in this action''
      else None)"

text \<open>
  \<open>String(value)\<close> of a JSON value: a number in decimal, an array as its elements
  joined by commas with \<open>null\<close> elements empty, an object as \<open>[object Object]\<close>.
\<close>

definition digit_char :: "nat \<Rightarrow> char" where
  "digit_char d = ''0123456789'' ! d"

fun show_nat :: "nat \<Rightarrow> string" where
  "show_nat n = (if n < 10 then [digit_char n] else show_nat (n div 10) @ [digit_char (n mod 10)])"

declare show_nat.simps [simp del]

definition show_int :: "int \<Rightarrow> string" where
  "show_int i = (if i < 0 then CHR ''-'' # show_nat (nat (- i)) else show_nat (nat i))"

fun join_comma :: "string list \<Rightarrow> string" where
  "join_comma [] = []"
| "join_comma [x] = x"
| "join_comma (x # y # ys) = x @ '','' @ join_comma (y # ys)"

fun js_String :: "json \<Rightarrow> string" where
  "js_String JNull = ''null''"
| "js_String (JBool b) = (if b then ''true'' else ''false'')"
| "js_String (JNum n) = show_int n"
| "js_String (JStr t) = t"
| "js_String (JArr xs) = join_comma (map (\<lambda>x. if x = JNull then [] else js_String x) xs)"
| "js_String (JObj kvs) = ''[object Object]''"

definition normalizeBool :: "json option \<Rightarrow> bool \<Rightarrow> bool" where
  "normalizeBool v fallback =
     (case v of
        None \<Rightarrow> fallback
      | Some JNull \<Rightarrow> fallback
      | Some (JBool b) \<Rightarrow> b
      | Some x \<Rightarrow> toLowerCase (js_String x) \<in> set [''true'', ''1'', ''yes'', ''on''])"

definition writeAdminAudit :: "req_user \<Rightarrow> string \<Rightarrow> string \<Rightarrow> json \<Rightarrow> json \<Rightarrow> store \<Rightarrow> store" where
  "writeAdminAudit actor act ttype tid meta st =
     audit_log \<lparr>actor_id = Some (ru_id actor), action = act, target_type = Some ttype,
                target_id = tid, metadata = meta\<rparr> st"

definition user_json :: "user option \<Rightarrow> json" where
  "user_json x = (case x of None \<Rightarrow> JNull | Some u \<Rightarrow> buildUserResponse u)"

text \<open>
  Modelled from the spec: repositories/adminRepository.js is not among the sources; the
  routes call its \<open>setUserStatus\<close>, \<open>setUserRole\<close>, \<open>resetUserSessions\<close>,
  \<open>setForcePasswordReset\<close> and \<open>unlockUser\<close>. Following the spec ("Admin reset sessions /
  role or status change / force-password-reset: increments sessionVersion", over the
  account-security mutators of the user repository), each is the mutator of
  userRepository.js of the same purpose, followed for a status or role change by
  \<open>incrementSessionVersion\<close>; each returns the row read back, which the route sends
  as JSON (\<open>user_json\<close>, in the rendering of \<open>buildUserResponse\<close>).
\<close>

definition setUserStatus :: "int \<Rightarrow> string \<Rightarrow> user list \<Rightarrow> user list \<times> user option" where
  "setUserStatus i st db =
     (let (db1, _) = updateStatus i st db;
          (db2, _) = incrementSessionVersion i db1
      in (db2, findById db2 i))"

definition setUserRole :: "int \<Rightarrow> string \<Rightarrow> user list \<Rightarrow> user list \<times> user option" where
  "setUserRole i r db =
     (let (db1, _) = updateRole i r db;
          (db2, _) = incrementSessionVersion i db1
      in (db2, findById db2 i))"

definition resetUserSessions :: "int \<Rightarrow> user list \<Rightarrow> user list \<times> user option" where
  "resetUserSessions i db =
     (let (db1, _) = incrementSessionVersion i db in (db1, findById db1 i))"

definition adminSetForcePasswordReset :: "int \<Rightarrow> bool \<Rightarrow> user list \<Rightarrow> user list \<times> user option" where
  "adminSetForcePasswordReset i v db =
     (let (db1, _) = setForcePasswordReset i v db in (db1, findById db1 i))"

text \<open>
  The handlers of \<open>PATCH /users/:id/status\<close>, \<open>/role\<close>, \<open>/reset-sessions\<close> and
  \<open>/force-password-reset\<close>, after the permission gate: \<open>actor\<close> is \<open>req.user\<close>,
  \<open>userId\<close> is \<open>parseInt(req.params.id)\<close>, the third argument is the field of the body.
\<close>

definition patch_status :: "req_user \<Rightarrow> int \<Rightarrow> string option \<Rightarrow> store \<Rightarrow> response \<times> store" where
  "patch_status actor userId body_status st =
     (let st_val = toUpperCase (or_str body_status [])
      in case assertNotSelfMutation actor userId of
           Some selfError \<Rightarrow> (respond 400 (JObj [(''message'', JStr selfError)]), st)
         | None \<Rightarrow>
             if st_val \<notin> set editableStatuses then
               (respond 400 (JObj [(''message'', JStr ''Invalid status value'')]), st)
             else
               (let (db', u) = setUserStatus userId st_val (users st)
                in (respond 200 (user_json u),
                    writeAdminAudit actor
                      (if st_val = ''ACTIVE'' then ''admin.user.approve''
                       else ''admin.user.status_change'')
                      ''user'' (JNum userId) (JObj [(''status'', JStr st_val)])
                      (st\<lparr>users := db'\<rparr>))))"

definition patch_role :: "req_user \<Rightarrow> int \<Rightarrow> string option \<Rightarrow> store \<Rightarrow> response \<times> store" where
  "patch_role actor userId body_role st =
     (let r = toUpperCase (or_str body_role [])
      in case assertNotSelfMutation actor userId of
           Some selfError \<Rightarrow> (respond 400 (JObj [(''message'', JStr selfError)]), st)
         | None \<Rightarrow>
             if r \<notin> set editableRoles then
               (respond 400 (JObj [(''message'', JStr ''Invalid role value'')]), st)
             else
               (let (db', u) = setUserRole userId r (users st)
                in (respond 200 (user_json u),
                    writeAdminAudit actor ''admin.user.role_change''
                      ''user'' (JNum userId) (JObj [(''role'', JStr r)])
                      (st\<lparr>users := db'\<rparr>))))"

definition patch_reset_sessions :: "req_user \<Rightarrow> int \<Rightarrow> store \<Rightarrow> response \<times> store" where
  "patch_reset_sessions actor userId st =
     (case assertNotSelfMutation actor userId of
        Some selfError \<Rightarrow> (respond 400 (JObj [(''message'', JStr selfError)]), st)
      | None \<Rightarrow>
          (let (db', u) = resetUserSessions userId (users st)
           in (respond 200 (user_json u),
               writeAdminAudit actor ''admin.user.reset_sessions''
                 ''user'' (JNum userId) JNull (st\<lparr>users := db'\<rparr>))))"

definition patch_force_password_reset ::
  "req_user \<Rightarrow> int \<Rightarrow> json option \<Rightarrow> store \<Rightarrow> response \<times> store" where
  "patch_force_password_reset actor userId body_flag st =
     (let forcePasswordReset = normalizeBool body_flag True;
          (db', u) = adminSetForcePasswordReset userId forcePasswordReset (users st)
      in (respond 200 (user_json u),
          writeAdminAudit actor ''admin.user.force_password_reset''
            ''user'' (JNum userId) (JObj [(''forcePasswordReset'', JBool forcePasswordReset)])
            (st\<lparr>users := db'\<rparr>)))"

section \<open>Example data\<close>

text \<open>Rows and collaborators used to run the definitions on concrete inputs.\<close>

definition example_user :: user where
  "example_user =
     \<lparr>user_id = 7, username = ''Alice'', username_normalized = ''alice'',
      password_hash = ''hash:secret'', oidc_id = None, oidc_provider = None,
      email = None, name = None, created_at = 1000, is_admin = False, role = USER,
      status = ''ACTIVE'', failed_login_attempts = 0, locked_until = None,
      force_password_reset = False, session_version = 1, last_login_at = None,
      is_active = True\<rparr>"

definition example_admin :: user where
  "example_admin =
     example_user\<lparr>user_id := 1, username := ''root'', username_normalized := ''root'',
                   is_admin := True, role := ADMIN\<rparr>"

text \<open>
  A transparent stand-in for the primitives: the hash of a password is the password
  behind a tag, and a token is the text of its payload, the fields separated by dots,
  the id and the session version in unary digits; \<open>verify\<close> reads it back. The
  server of \<open>example_env\<close> runs in a zone at UTC.
\<close>

definition example_sign :: "payload \<Rightarrow> string" where
  "example_sign p =
     replicate (nat (p_id p)) CHR ''i'' @ ''.''
     @ replicate (nat (case p_sessionVersion p of None \<Rightarrow> 0 | Some v \<Rightarrow> v)) CHR ''v'' @ ''.''
     @ p_username p @ ''.'' @ p_role p @ ''.'' @ p_status p"

definition example_verify :: "string \<Rightarrow> payload option" where
  "example_verify t =
     (case split_on CHR ''.'' t of
        [a, b, c, d, e] \<Rightarrow>
          if a = replicate (length a) CHR ''i'' \<and> b = replicate (length b) CHR ''v''
          then Some \<lparr>p_id = int (length a), p_username = c, p_role = d, p_status = e,
                      p_sessionVersion = (if b = [] then None else Some (int (length b)))\<rparr>
          else None
      | _ \<Rightarrow> None)"

definition example_env :: env where
  "example_env =
     \<lparr>DISABLE_ACCOUNTS = False, DISABLE_INTERNAL_ACCOUNTS = False, BASE_PATH = [],
      bcrypt_compare = (\<lambda>pw h. h = ''hash:'' @ pw),
      bcrypt_hash = (\<lambda>pw. ''hash:'' @ pw),
      jwt_sign = example_sign, jwt_verify = example_verify,
      generateAnonymousUsername = ''anon-00'', parse_local_time = Some\<rparr>"

definition example_settings :: settings where
  "example_settings =
     \<lparr>registration_mode = ''OPEN'', maintenance_mode = ''OFF'',
      lockout_maxAttempts = 2, lockout_durationMinutes = 5,
      rateLimit_windowMs = 1000, rateLimit_authMax = 3, rateLimit_publicMax = 120,
      rateLimit_generalMax = 300\<rparr>"

definition example_request :: request where
  "example_request =
     \<lparr>req_path = ''/api/snippets'', bytestashauth = None, cookie_token = None,
      x_forwarded_for = None, req_ip = Some ''10.0.0.1'', req_user = None,
      req_apiKey = False\<rparr>"

definition example_store :: store where
  "example_store = \<lparr>users = [example_admin, example_user], audit_logs = [], verify_calls = 0\<rparr>"

lemmas str_eval =
  toUpperCase_def toUpperChar_def toLowerCase_def toLowerChar_def lower_letters_def
  upper_letters_def

section \<open>Verification of the permission engine\<close>

lemma rolePermissions_Some_iff:
  "rolePermissions r \<noteq> None \<longleftrightarrow> r \<in> set Roles"
  by (simp add: rolePermissions_def Roles_def)

lemma normalizeRole_in_Roles: "normalizeRole rl \<in> set Roles"
proof (cases rl)
  case None
  then show ?thesis by (simp add: normalizeRole_def Roles_def)
next
  case (Some r)
  show ?thesis
  proof (cases "r \<noteq> [] \<and> rolePermissions (toUpperCase r) \<noteq> None")
    case True
    then have "normalizeRole rl = toUpperCase r"
      using Some by (simp add: normalizeRole_def)
    then show ?thesis
      using True rolePermissions_Some_iff by simp
  next
    case False
    then have "normalizeRole rl = USER"
      using Some by (auto simp: normalizeRole_def)
    then show ?thesis by (simp add: Roles_def)
  qed
qed

lemma rolePermissions_subset_universe:
  "rolePermissions r = Some ps \<Longrightarrow> set ps \<subseteq> set Permissions"
  unfolding rolePermissions_def Permissions_def
  by (auto split: if_splits)

lemma getPermissionsByRole_lookup:
  "rolePermissions (normalizeRole rl) = Some (getPermissionsByRole rl)"
proof -
  have "rolePermissions (normalizeRole rl) \<noteq> None"
    using normalizeRole_in_Roles rolePermissions_Some_iff by blast
  then show ?thesis
    by (auto simp: getPermissionsByRole_def)
qed

lemma normalizeRole_idem: "normalizeRole (Some (normalizeRole rl)) = normalizeRole rl"
proof -
  have "normalizeRole rl \<in> set Roles" by (rule normalizeRole_in_Roles)
  then consider "normalizeRole rl = SUPER_ADMIN" | "normalizeRole rl = ADMIN"
    | "normalizeRole rl = MODERATOR" | "normalizeRole rl = USER" | "normalizeRole rl = READ_ONLY"
    by (auto simp: Roles_def)
  then show ?thesis
    by cases (simp_all add: normalizeRole_def str_eval rolePermissions_def)
qed

lemma getPermissionsByRole_SUPER_ADMIN: "getPermissionsByRole (Some SUPER_ADMIN) = Permissions"
  by (simp add: getPermissionsByRole_def normalizeRole_def str_eval rolePermissions_def)

text \<open>
  C8. \<open>permissionsOf\<close> is \<open>getPermissionsByRole\<close>. It is a function of its argument alone
  (the table \<open>rolePermissions\<close> is a constant), and more precisely of the normalised role
  alone. The set of SUPER_ADMIN is the universe \<open>Object.values(Permissions)\<close>, so it
  contains the set of every role, whatever the argument \<open>x\<close> (also an unknown or missing
  role, which is given the set of USER).
\<close>

theorem permissionsOf_deterministic_super_admin_superset:
  "getPermissionsByRole (Some (normalizeRole rl)) = getPermissionsByRole rl
   \<and> set (getPermissionsByRole (Some SUPER_ADMIN)) = set Permissions
   \<and> set (getPermissionsByRole x) \<subseteq> set (getPermissionsByRole (Some SUPER_ADMIN))"
proof -
  have a: "getPermissionsByRole (Some (normalizeRole rl)) = getPermissionsByRole rl"
    by (simp add: getPermissionsByRole_def normalizeRole_idem)
  have c: "set (getPermissionsByRole x) \<subseteq> set Permissions"
    using rolePermissions_subset_universe [OF getPermissionsByRole_lookup] .
  show ?thesis
    using a c by (simp add: getPermissionsByRole_SUPER_ADMIN)
qed

section \<open>Verification of the users table\<close>

lemma findById_Some_D: "findById db i = Some u \<Longrightarrow> user_id u = i \<and> u \<in> set db"
  by (auto simp: findById_def find_Some_iff)

lemma findById_map_update:
  assumes "\<And>r. user_id (f r) = user_id r"
  shows "findById (map (\<lambda>r. if c r then f r else r) db) j
         = map_option (\<lambda>r. if c r then f r else r) (findById db j)"
  using assms by (induction db) (auto simp: findById_def)

lemma filter_nonempty: "u \<in> set db \<Longrightarrow> c u \<Longrightarrow> 0 < length (filter c db)"
  by (induction db) auto

lemma findById_distinct:
  "distinct (map user_id db) \<Longrightarrow> u \<in> set db \<Longrightarrow> findById db (user_id u) = Some u"
  by (induction db) (auto simp: findById_def)

lemma guarded_cond:
  "i \<noteq> 0 \<Longrightarrow> (\<lambda>u. user_id u = i \<and> user_id u \<noteq> 0) = (\<lambda>u. user_id u = i)"
  by auto

text \<open>
  C10. For a user id other than 0 that is in the table, \<open>unlockUser\<close> rewrites the rows of
  that id with \<open>failed_login_attempts = 0\<close>, \<open>locked_until = NULL\<close> and
  \<open>status = 'ACTIVE'\<close>, whatever the status was; every other column of those rows and
  every other row is as before, and the row read back is returned.
\<close>

theorem unlockUser_sets_active_and_changes_three_fields:
  assumes "i \<noteq> 0" and "findById db i = Some u"
  shows "unlockUser i db =
           (map (\<lambda>r. if user_id r = i
                      then r\<lparr>failed_login_attempts := 0, locked_until := None, status := ''ACTIVE''\<rparr>
                      else r) db,
            Some (u\<lparr>failed_login_attempts := 0, locked_until := None, status := ''ACTIVE''\<rparr>))"
proof -
  let ?c = "\<lambda>r. user_id r = i"
  let ?f = "\<lambda>r. r\<lparr>failed_login_attempts := 0, locked_until := None, status := ''ACTIVE''\<rparr>"
  have u: "user_id u = i" "u \<in> set db" using findById_Some_D [OF assms(2)] by simp_all
  have changes: "0 < length (filter ?c db)"
    using filter_nonempty [of u db ?c] u by simp
  have found: "findById (map (\<lambda>r. if ?c r then ?f r else r) db) i = Some (?f u)"
    using findById_map_update [of ?f ?c db i] assms(2) u by simp
  show ?thesis
    unfolding unlockUser_def unlockUserStmt_def sql_update_def guarded_cond [OF assms(1)]
    using changes found by simp
qed

theorem unlockUser_sets_active_witness:
  "unlockUser 7
     [example_admin,
      example_user\<lparr>status := ''SUSPENDED'', is_active := False, failed_login_attempts := 3,
                   locked_until := Some 99\<rparr>]
   = ([example_admin, example_user\<lparr>is_active := False\<rparr>],
      Some (example_user\<lparr>is_active := False\<rparr>))"
  using unlockUser_sets_active_and_changes_three_fields [of 7
      "[example_admin,
        example_user\<lparr>status := ''SUSPENDED'', is_active := False, failed_login_attempts := 3,
                     locked_until := Some 99\<rparr>]"
      "example_user\<lparr>status := ''SUSPENDED'', is_active := False, failed_login_attempts := 3,
                   locked_until := Some 99\<rparr>"]
  by (simp add: findById_def example_user_def example_admin_def)

section \<open>Verification of the permission gate\<close>

text \<open>
  C9, as the code has it. Without a user on the request the gate answers 401 with the
  body \<open>{message: "Authentication required"}\<close> (the key is \<open>message\<close>, as in every
  response of this module, not \<open>error\<close>); with a user whose normalised role lacks the
  permission it answers 403 with \<open>{message: "Insufficient permissions"}\<close>; otherwise the
  request proceeds unchanged.
\<close>

theorem requirePermission_responses:
  "(req_user req = None \<longrightarrow>
      requirePermission permission req =
        Respond \<lparr>res_status = 401, res_headers = [],
                 res_body = JObj [(''message'', JStr ''Authentication required'')]\<rparr>)
   \<and> (\<forall>u. req_user req = Some u
            \<and> \<not> hasPermission (Some (normalizeRole (ru_role u))) permission \<longrightarrow>
      requirePermission permission req =
        Respond \<lparr>res_status = 403, res_headers = [],
                 res_body = JObj [(''message'', JStr ''Insufficient permissions'')]\<rparr>)
   \<and> (\<forall>u. req_user req = Some u
            \<and> hasPermission (Some (normalizeRole (ru_role u))) permission \<longrightarrow>
      requirePermission permission req = Next req)"
  by (simp add: requirePermission_def respond_def)

lemma hasPermission_USER_read: "hasPermission (Some (normalizeRole (Some ''user''))) SNIPPET_READ_SELF"
  by (simp add: hasPermission_def getPermissionsByRole_def normalizeRole_def rolePermissions_def
      str_eval)

lemma hasPermission_USER_admin:
  "\<not> hasPermission (Some (normalizeRole (Some ''user''))) ADMIN_PANEL_ACCESS"
  by (simp add: hasPermission_def getPermissionsByRole_def normalizeRole_def rolePermissions_def
      str_eval)

theorem requirePermission_responses_witness:
  "requirePermission ADMIN_PANEL_ACCESS example_request =
     Respond \<lparr>res_status = 401, res_headers = [],
              res_body = JObj [(''message'', JStr ''Authentication required'')]\<rparr>
   \<and> requirePermission ADMIN_PANEL_ACCESS
        (example_request\<lparr>req_user := Some ((user_of_row example_user)\<lparr>ru_role := Some ''user''\<rparr>)\<rparr>) =
     Respond \<lparr>res_status = 403, res_headers = [],
              res_body = JObj [(''message'', JStr ''Insufficient permissions'')]\<rparr>
   \<and> requirePermission SNIPPET_READ_SELF
        (example_request\<lparr>req_user := Some ((user_of_row example_user)\<lparr>ru_role := Some ''user''\<rparr>)\<rparr>) =
     Next (example_request\<lparr>req_user := Some ((user_of_row example_user)\<lparr>ru_role := Some ''user''\<rparr>)\<rparr>)"
proof -
  let ?r = "example_request\<lparr>req_user := Some ((user_of_row example_user)\<lparr>ru_role := Some ''user''\<rparr>)\<rparr>"
  have n: "req_user example_request = None" by (simp add: example_request_def)
  have s: "req_user ?r = Some ((user_of_row example_user)\<lparr>ru_role := Some ''user''\<rparr>)" by simp
  show ?thesis
    using requirePermission_responses [of example_request ADMIN_PANEL_ACCESS]
      requirePermission_responses [of ?r ADMIN_PANEL_ACCESS]
      requirePermission_responses [of ?r SNIPPET_READ_SELF]
      n s hasPermission_USER_read hasPermission_USER_admin
    by simp
qed

text \<open>
  The claim as stated, with the body \<open>{error: "Authentication required"}\<close>, fails on a
  request without a user.
\<close>

theorem requirePermission_error_body_counterexample:
  "req_user example_request = None
   \<and> requirePermission ADMIN_PANEL_ACCESS example_request
       \<noteq> Respond \<lparr>res_status = 401, res_headers = [],
                   res_body = JObj [(''error'', JStr ''Authentication required'')]\<rparr>"
  by (simp add: requirePermission_def respond_def example_request_def)

section \<open>Verification of the maintenance gate\<close>

lemma maintenanceModeGuard_unfold:
  assumes "isMaintenanceEnabled s" and "prefix (BASE_PATH e @ ''/api'') (req_path req)"
  shows "maintenanceModeGuard e s req db =
           (if hasBypassPath (BASE_PATH e) (req_path req) then Next req
            else (case getTokenFromRequest req of
                    None \<Rightarrow> Respond maintenance_response
                  | Some token \<Rightarrow>
                      (case jwt_verify e token of
                         None \<Rightarrow> Respond maintenance_response
                       | Some decoded \<Rightarrow>
                           (case findById db (p_id decoded) of
                              None \<Rightarrow> Respond maintenance_response
                            | Some u \<Rightarrow>
                                if toUpperCase (role u) = SUPER_ADMIN
                                   \<or> toUpperCase (role u) = ADMIN
                                then Next req else Respond maintenance_response))))"
  using assms
  by (simp add: maintenanceModeGuard_def Let_def or_str_def toUpperCase_def
      split: option.split)

text \<open>
  C6. With maintenance mode enabled, a request whose path starts with the API prefix
  passes the gate exactly when its path is a bypass path (it contains \<open>/api-docs\<close> or
  starts with the auth-config, login or OIDC prefix) or it bears a token that verifies
  and resolves to a user whose role, upper-cased, is SUPER_ADMIN or ADMIN. Every other
  request gets the one response 503 \<open>{error: "Maintenance mode is enabled"}\<close>: a
  missing token, a token that does not verify, an unknown user and an insufficient role
  are answered alike.
\<close>

theorem maintenanceModeGuard_rejects_all_but_bypass_and_admins:
  assumes "isMaintenanceEnabled s" and "prefix (BASE_PATH e @ ''/api'') (req_path req)"
  shows "maintenanceModeGuard e s req db =
           (if (str_includes (req_path req) ''/api-docs''
                \<or> prefix (BASE_PATH e @ ''/api/auth/config'') (req_path req)
                \<or> prefix (BASE_PATH e @ ''/api/auth/login'') (req_path req)
                \<or> prefix (BASE_PATH e @ ''/api/auth/oidc'') (req_path req))
               \<or> (\<exists>token decoded u.
                      getTokenFromRequest req = Some token
                      \<and> jwt_verify e token = Some decoded
                      \<and> findById db (p_id decoded) = Some u
                      \<and> (toUpperCase (role u) = SUPER_ADMIN \<or> toUpperCase (role u) = ADMIN))
            then Next req
            else Respond \<lparr>res_status = 503, res_headers = [],
                          res_body = JObj [(''error'', JStr ''Maintenance mode is enabled'')]\<rparr>)"
proof -
  have bypass: "hasBypassPath (BASE_PATH e) (req_path req) \<longleftrightarrow>
      (str_includes (req_path req) ''/api-docs''
       \<or> prefix (BASE_PATH e @ ''/api/auth/config'') (req_path req)
       \<or> prefix (BASE_PATH e @ ''/api/auth/login'') (req_path req)
       \<or> prefix (BASE_PATH e @ ''/api/auth/oidc'') (req_path req))"
    by (simp add: hasBypassPath_def BypassApiPrefixes_def)
  show ?thesis
    unfolding maintenanceModeGuard_unfold [OF assms] bypass maintenance_response_def respond_def
    by (auto split: option.split)
qed
lemma example_getToken:
  "getTokenFromRequest (example_request\<lparr>bytestashauth := Some (''Bearer '' @ t)\<rparr>) =
     (case split_on CHR '' '' t of [] \<Rightarrow> None | w # _ \<Rightarrow> if w = [] then cookie_token example_request else Some w)"
  by (simp add: getTokenFromRequest_def truthy_def nth_opt_def example_request_def
      split: list.split)

theorem maintenanceModeGuard_witness:
  "maintenanceModeGuard example_env (example_settings\<lparr>maintenance_mode := ''on''\<rparr>)
     example_request (users example_store) =
     Respond \<lparr>res_status = 503, res_headers = [],
              res_body = JObj [(''error'', JStr ''Maintenance mode is enabled'')]\<rparr>
   \<and> maintenanceModeGuard example_env (example_settings\<lparr>maintenance_mode := ''on''\<rparr>)
       (example_request\<lparr>bytestashauth := Some ''Bearer i.v.root.ADMIN.ACTIVE''\<rparr>) (users example_store) =
     Next (example_request\<lparr>bytestashauth := Some ''Bearer i.v.root.ADMIN.ACTIVE''\<rparr>)
   \<and> maintenanceModeGuard example_env (example_settings\<lparr>maintenance_mode := ''on''\<rparr>)
       (example_request\<lparr>bytestashauth := Some ''Bearer iiiiiii.v.Alice.USER.ACTIVE''\<rparr>) (users example_store) =
     Respond \<lparr>res_status = 503, res_headers = [],
              res_body = JObj [(''error'', JStr ''Maintenance mode is enabled'')]\<rparr>
   \<and> maintenanceModeGuard example_env (example_settings\<lparr>maintenance_mode := ''on''\<rparr>)
       (example_request\<lparr>bytestashauth := Some ''Bearer junk''\<rparr>) (users example_store) =
     Respond \<lparr>res_status = 503, res_headers = [],
              res_body = JObj [(''error'', JStr ''Maintenance mode is enabled'')]\<rparr>
   \<and> maintenanceModeGuard example_env (example_settings\<lparr>maintenance_mode := ''on''\<rparr>)
       (example_request\<lparr>req_path := ''/api/auth/login''\<rparr>) (users example_store) =
     Next (example_request\<lparr>req_path := ''/api/auth/login''\<rparr>)"
proof -
  let ?s = "example_settings\<lparr>maintenance_mode := ''on''\<rparr>"
  have on: "isMaintenanceEnabled ?s"
    by (simp add: isMaintenanceEnabled_def str_eval)
  have api: "prefix (BASE_PATH example_env @ ''/api'') (req_path (example_request\<lparr>bytestashauth := h\<rparr>))"
    for h by (simp add: example_env_def example_request_def)
  have api0: "prefix (BASE_PATH example_env @ ''/api'') (req_path example_request)"
    by (simp add: example_env_def example_request_def)
  have api': "prefix (BASE_PATH example_env @ ''/api'')
                (req_path (example_request\<lparr>req_path := ''/api/auth/login''\<rparr>))"
    by (simp add: example_env_def)
  have ev: "BASE_PATH example_env = []" "jwt_verify example_env = example_verify"
    by (simp_all add: example_env_def)
  have path: "req_path (example_request\<lparr>bytestashauth := h\<rparr>) = ''/api/snippets''" for h
    by (simp add: example_request_def)
  have tok0: "getTokenFromRequest example_request = None"
    by (simp add: getTokenFromRequest_def truthy_def example_request_def)
  have db: "findById (users example_store) 1 = Some example_admin"
    "findById (users example_store) 7 = Some example_user"
    by (simp_all add: findById_def example_store_def example_admin_def example_user_def)
  have roles: "toUpperCase (role example_admin) = ADMIN" "toUpperCase (role example_user) = USER"
    by (simp_all add: example_admin_def example_user_def str_eval)
  have 1: "maintenanceModeGuard example_env ?s example_request (users example_store) =
     Respond \<lparr>res_status = 503, res_headers = [],
              res_body = JObj [(''error'', JStr ''Maintenance mode is enabled'')]\<rparr>"
    using maintenanceModeGuard_rejects_all_but_bypass_and_admins [OF on api0, of "users example_store"]
    by (simp add: ev tok0) (simp add: example_request_def)
  have 2: "maintenanceModeGuard example_env ?s
       (example_request\<lparr>bytestashauth := Some ''Bearer i.v.root.ADMIN.ACTIVE''\<rparr>) (users example_store) =
     Next (example_request\<lparr>bytestashauth := Some ''Bearer i.v.root.ADMIN.ACTIVE''\<rparr>)"
    using maintenanceModeGuard_rejects_all_but_bypass_and_admins [OF on api, of "Some ''Bearer i.v.root.ADMIN.ACTIVE''" "users example_store"]
      example_getToken [of "''i.v.root.ADMIN.ACTIVE''"]
    by (simp add: ev path example_verify_def db roles)
  have 3: "maintenanceModeGuard example_env ?s
       (example_request\<lparr>bytestashauth := Some ''Bearer iiiiiii.v.Alice.USER.ACTIVE''\<rparr>) (users example_store) =
     Respond \<lparr>res_status = 503, res_headers = [],
              res_body = JObj [(''error'', JStr ''Maintenance mode is enabled'')]\<rparr>"
    using maintenanceModeGuard_rejects_all_but_bypass_and_admins [OF on api, of "Some ''Bearer iiiiiii.v.Alice.USER.ACTIVE''" "users example_store"]
      example_getToken [of "''iiiiiii.v.Alice.USER.ACTIVE''"]
    by (simp add: ev path example_verify_def db roles)
  have 4: "maintenanceModeGuard example_env ?s
       (example_request\<lparr>bytestashauth := Some ''Bearer junk''\<rparr>) (users example_store) =
     Respond \<lparr>res_status = 503, res_headers = [],
              res_body = JObj [(''error'', JStr ''Maintenance mode is enabled'')]\<rparr>"
    using maintenanceModeGuard_rejects_all_but_bypass_and_admins [OF on api, of "Some ''Bearer junk''" "users example_store"]
      example_getToken [of "''junk''"]
    by (simp add: ev path example_verify_def)
  have 5: "maintenanceModeGuard example_env ?s
       (example_request\<lparr>req_path := ''/api/auth/login''\<rparr>) (users example_store) =
     Next (example_request\<lparr>req_path := ''/api/auth/login''\<rparr>)"
    using maintenanceModeGuard_rejects_all_but_bypass_and_admins [OF on api', of "users example_store"]
    by (simp add: ev)
  show ?thesis using 1 2 3 4 5 by simp
qed

section \<open>Verification of the rate limiter\<close>

lemma ceil_div_1000_bounds: "1000 * (ceil_div_1000 a - 1) < a \<and> a \<le> 1000 * ceil_div_1000 a"
proof -
  define q where "q = (- a) div 1000"
  define r where "r = (- a) mod 1000"
  have "- a = 1000 * q + r" by (simp add: q_def r_def)
  then have d: "a = - (1000 * q) - r" by linarith
  have m: "0 \<le> r" "r < 1000" by (simp_all add: r_def)
  have c: "ceil_div_1000 a = - q" by (simp add: ceil_div_1000_def q_def)
  have "1000 * (- q - 1) = - (1000 * q) - 1000" by (simp add: algebra_simps)
  then have "1000 * (- q - 1) < a" using d m by linarith
  moreover have "a \<le> 1000 * - q" using d m by linarith
  ultimately show ?thesis unfolding c by simp
qed

lemma ceil_div_1000_pos: "0 < a \<Longrightarrow> 1 \<le> ceil_div_1000 a"
  using ceil_div_1000_bounds [of a] by linarith

lemma createRateLimiter_fresh:
  assumes "bs (scope @ '':'' @ getClientIp req) = None
           \<or> (\<exists>b. bs (scope @ '':'' @ getClientIp req) = Some b
                    \<and> now - windowStart b \<ge> rateLimit_windowMs s)"
  shows "createRateLimiter scope s now req bs =
      (Next req,
       [(''X-RateLimit-Limit'', JNum (getScopeLimit scope s)),
        (''X-RateLimit-Remaining'', JNum (getScopeLimit scope s - 1))],
       bs(scope @ '':'' @ getClientIp req \<mapsto>
            \<lparr>count = 1, windowStart = now, windowMs = rateLimit_windowMs s\<rparr>))"
  using assms unfolding createRateLimiter_def Let_def
  by (cases "bs (scope @ '':'' @ getClientIp req)") auto

lemma createRateLimiter_over:
  assumes "bs (scope @ '':'' @ getClientIp req) = Some b"
    and "now - windowStart b < rateLimit_windowMs s"
    and "count b + 1 > getScopeLimit scope s"
  shows "createRateLimiter scope s now req bs =
      (Respond \<lparr>res_status = 429,
                res_headers =
                  [(''X-RateLimit-Limit'', JNum (getScopeLimit scope s)),
                   (''X-RateLimit-Remaining'', JNum 0),
                   (''Retry-After'',
                    JNum (max 1 (ceil_div_1000 (windowStart b + rateLimit_windowMs s - now))))],
                res_body = JObj [(''error'', JStr ''Too many requests''),
                                 (''scope'', JStr scope)]\<rparr>,
       [(''X-RateLimit-Limit'', JNum (getScopeLimit scope s)),
        (''X-RateLimit-Remaining'', JNum 0),
        (''Retry-After'',
         JNum (max 1 (ceil_div_1000 (windowStart b + rateLimit_windowMs s - now))))],
       bs(scope @ '':'' @ getClientIp req \<mapsto> b\<lparr>count := count b + 1\<rparr>))"
  using assms unfolding createRateLimiter_def Let_def
  by simp

lemma createRateLimiter_under:
  assumes "bs (scope @ '':'' @ getClientIp req) = Some b"
    and "now - windowStart b < rateLimit_windowMs s"
    and "count b + 1 \<le> getScopeLimit scope s"
  shows "createRateLimiter scope s now req bs =
      (Next req,
       [(''X-RateLimit-Limit'', JNum (getScopeLimit scope s)),
        (''X-RateLimit-Remaining'', JNum (getScopeLimit scope s - (count b + 1)))],
       bs(scope @ '':'' @ getClientIp req \<mapsto> b\<lparr>count := count b + 1\<rparr>))"
  using assms unfolding createRateLimiter_def Let_def
  by simp

text \<open>
  The bucket key \<open>scope:clientIp\<close> determines the scope and the client as long as the
  scope has no colon, as the scopes \<open>auth\<close>, \<open>public\<close> and \<open>general\<close> do.
\<close>

lemma bucket_key_injective:
  assumes "CHR '':'' \<notin> set scope" and "CHR '':'' \<notin> set scope'"
    and "scope @ '':'' @ ip = scope' @ '':'' @ ip'"
  shows "scope = scope' \<and> ip = ip'"
  using assms
proof (induction scope arbitrary: scope')
  case Nil
  then show ?case by (cases scope') auto
next
  case (Cons c cs)
  then show ?case by (cases scope') auto
qed

text \<open>
  C7. Let \<open>key\<close> be the bucket key of the request, \<open>limit\<close> the limit of the scope and
  \<open>w\<close> the configured window. Without a bucket for the key, or with one whose window has
  elapsed (\<open>now - windowStart \<ge> w\<close>), the bucket becomes a fresh one with count 1 and the
  request is permitted. Otherwise the count of the bucket is incremented, and the request
  is rejected with 429 exactly when the new count exceeds the limit; the rejection carries
  \<open>Retry-After\<close>, the time left to the end of the window in seconds, rounded up, and at
  least 1. In every case the headers \<open>X-RateLimit-Limit\<close> and \<open>X-RateLimit-Remaining\<close>
  are set, and the buckets of other keys are untouched.
\<close>

theorem createRateLimiter_fixed_window:
  fixes scope s now req bs
  defines "key \<equiv> scope @ '':'' @ getClientIp req"
    and "limit \<equiv> getScopeLimit scope s"
    and "w \<equiv> rateLimit_windowMs s"
    and "out \<equiv> fst (createRateLimiter scope s now req bs)"
    and "hdrs \<equiv> fst (snd (createRateLimiter scope s now req bs))"
    and "bs' \<equiv> snd (snd (createRateLimiter scope s now req bs))"
  shows "((bs key = None \<or> (\<exists>b. bs key = Some b \<and> now - windowStart b \<ge> w)) \<longrightarrow>
            out = Next req
            \<and> bs' key = Some \<lparr>count = 1, windowStart = now, windowMs = w\<rparr>
            \<and> hdrs = [(''X-RateLimit-Limit'', JNum limit),
                       (''X-RateLimit-Remaining'', JNum (limit - 1))])
       \<and> (\<forall>b. bs key = Some b \<and> now - windowStart b < w \<longrightarrow>
            bs' key = Some (b\<lparr>count := count b + 1\<rparr>)
            \<and> ((\<exists>r. out = Respond r \<and> res_status r = 429) \<longleftrightarrow> count b + 1 > limit)
            \<and> (count b + 1 \<le> limit \<longrightarrow>
                  out = Next req
                  \<and> hdrs = [(''X-RateLimit-Limit'', JNum limit),
                             (''X-RateLimit-Remaining'', JNum (limit - (count b + 1)))])
            \<and> (count b + 1 > limit \<longrightarrow>
                  out = Respond
                          \<lparr>res_status = 429, res_headers = hdrs,
                           res_body = JObj [(''error'', JStr ''Too many requests''),
                                            (''scope'', JStr scope)]\<rparr>
                  \<and> hdrs = [(''X-RateLimit-Limit'', JNum limit),
                             (''X-RateLimit-Remaining'', JNum 0),
                             (''Retry-After'',
                              JNum (ceil_div_1000 (windowStart b + w - now)))]
                  \<and> 1 \<le> ceil_div_1000 (windowStart b + w - now)
                  \<and> 1000 * (ceil_div_1000 (windowStart b + w - now) - 1)
                       < windowStart b + w - now
                  \<and> windowStart b + w - now
                       \<le> 1000 * ceil_div_1000 (windowStart b + w - now)))
       \<and> map fst (take 2 hdrs) = [''X-RateLimit-Limit'', ''X-RateLimit-Remaining'']
       \<and> (\<forall>k. k \<noteq> key \<longrightarrow> bs' k = bs k)"
proof -
  have run_fresh: "createRateLimiter scope s now req bs =
      (Next req,
       [(''X-RateLimit-Limit'', JNum limit), (''X-RateLimit-Remaining'', JNum (limit - 1))],
       bs(key \<mapsto> \<lparr>count = 1, windowStart = now, windowMs = w\<rparr>))"
    if "bs key = None \<or> (\<exists>b. bs key = Some b \<and> now - windowStart b \<ge> w)"
    using that unfolding key_def limit_def w_def by (rule createRateLimiter_fresh)
  have run_over: "createRateLimiter scope s now req bs =
      (Respond \<lparr>res_status = 429,
                res_headers =
                  [(''X-RateLimit-Limit'', JNum limit), (''X-RateLimit-Remaining'', JNum 0),
                   (''Retry-After'', JNum (max 1 (ceil_div_1000 (windowStart b + w - now))))],
                res_body = JObj [(''error'', JStr ''Too many requests''),
                                 (''scope'', JStr scope)]\<rparr>,
       [(''X-RateLimit-Limit'', JNum limit), (''X-RateLimit-Remaining'', JNum 0),
        (''Retry-After'', JNum (max 1 (ceil_div_1000 (windowStart b + w - now))))],
       bs(key \<mapsto> b\<lparr>count := count b + 1\<rparr>))"
    if "bs key = Some b" "now - windowStart b < w" "count b + 1 > limit" for b
    using that unfolding key_def limit_def w_def by (rule createRateLimiter_over)
  have run_under: "createRateLimiter scope s now req bs =
      (Next req,
       [(''X-RateLimit-Limit'', JNum limit),
        (''X-RateLimit-Remaining'', JNum (limit - (count b + 1)))],
       bs(key \<mapsto> b\<lparr>count := count b + 1\<rparr>))"
    if "bs key = Some b" "now - windowStart b < w" "count b + 1 \<le> limit" for b
    using that unfolding key_def limit_def w_def by (rule createRateLimiter_under)
  have bounds: "1 \<le> ceil_div_1000 (windowStart b + w - now)
      \<and> 1000 * (ceil_div_1000 (windowStart b + w - now) - 1) < windowStart b + w - now
      \<and> windowStart b + w - now \<le> 1000 * ceil_div_1000 (windowStart b + w - now)"
    if "now - windowStart b < w" for b
    using that ceil_div_1000_bounds [of "windowStart b + w - now"]
      ceil_div_1000_pos [of "windowStart b + w - now"] by simp
  have part1: "(bs key = None \<or> (\<exists>b. bs key = Some b \<and> now - windowStart b \<ge> w)) \<longrightarrow>
            out = Next req
            \<and> bs' key = Some \<lparr>count = 1, windowStart = now, windowMs = w\<rparr>
            \<and> hdrs = [(''X-RateLimit-Limit'', JNum limit),
                       (''X-RateLimit-Remaining'', JNum (limit - 1))]"
  proof
    assume a: "bs key = None \<or> (\<exists>b. bs key = Some b \<and> now - windowStart b \<ge> w)"
    show "out = Next req
            \<and> bs' key = Some \<lparr>count = 1, windowStart = now, windowMs = w\<rparr>
            \<and> hdrs = [(''X-RateLimit-Limit'', JNum limit),
                       (''X-RateLimit-Remaining'', JNum (limit - 1))]"
      unfolding out_def hdrs_def bs'_def run_fresh [OF a] by simp
  qed
  have part2: "\<forall>b. bs key = Some b \<and> now - windowStart b < w \<longrightarrow>
            bs' key = Some (b\<lparr>count := count b + 1\<rparr>)
            \<and> ((\<exists>r. out = Respond r \<and> res_status r = 429) \<longleftrightarrow> count b + 1 > limit)
            \<and> (count b + 1 \<le> limit \<longrightarrow>
                  out = Next req
                  \<and> hdrs = [(''X-RateLimit-Limit'', JNum limit),
                             (''X-RateLimit-Remaining'', JNum (limit - (count b + 1)))])
            \<and> (count b + 1 > limit \<longrightarrow>
                  out = Respond
                          \<lparr>res_status = 429, res_headers = hdrs,
                           res_body = JObj [(''error'', JStr ''Too many requests''),
                                            (''scope'', JStr scope)]\<rparr>
                  \<and> hdrs = [(''X-RateLimit-Limit'', JNum limit),
                             (''X-RateLimit-Remaining'', JNum 0),
                             (''Retry-After'',
                              JNum (ceil_div_1000 (windowStart b + w - now)))]
                  \<and> 1 \<le> ceil_div_1000 (windowStart b + w - now)
                  \<and> 1000 * (ceil_div_1000 (windowStart b + w - now) - 1)
                       < windowStart b + w - now
                  \<and> windowStart b + w - now
                       \<le> 1000 * ceil_div_1000 (windowStart b + w - now))"
  proof (intro allI impI, elim conjE)
    fix b
    assume b: "bs key = Some b" "now - windowStart b < w"
    show "bs' key = Some (b\<lparr>count := count b + 1\<rparr>)
            \<and> ((\<exists>r. out = Respond r \<and> res_status r = 429) \<longleftrightarrow> count b + 1 > limit)
            \<and> (count b + 1 \<le> limit \<longrightarrow>
                  out = Next req
                  \<and> hdrs = [(''X-RateLimit-Limit'', JNum limit),
                             (''X-RateLimit-Remaining'', JNum (limit - (count b + 1)))])
            \<and> (count b + 1 > limit \<longrightarrow>
                  out = Respond
                          \<lparr>res_status = 429, res_headers = hdrs,
                           res_body = JObj [(''error'', JStr ''Too many requests''),
                                            (''scope'', JStr scope)]\<rparr>
                  \<and> hdrs = [(''X-RateLimit-Limit'', JNum limit),
                             (''X-RateLimit-Remaining'', JNum 0),
                             (''Retry-After'',
                              JNum (ceil_div_1000 (windowStart b + w - now)))]
                  \<and> 1 \<le> ceil_div_1000 (windowStart b + w - now)
                  \<and> 1000 * (ceil_div_1000 (windowStart b + w - now) - 1)
                       < windowStart b + w - now
                  \<and> windowStart b + w - now
                       \<le> 1000 * ceil_div_1000 (windowStart b + w - now))"
    proof (cases "count b + 1 > limit")
      case True
      have m: "max 1 (ceil_div_1000 (windowStart b + w - now))
               = ceil_div_1000 (windowStart b + w - now)"
        using bounds [OF b(2)] by simp
      show ?thesis
        unfolding out_def hdrs_def bs'_def run_over [OF b True] m
        using True bounds [OF b(2)] by simp
    next
      case False
      then have le: "count b + 1 \<le> limit" by simp
      show ?thesis
        unfolding out_def hdrs_def bs'_def run_under [OF b le]
        using le by simp
    qed
  qed
  consider (fresh) "bs key = None \<or> (\<exists>b. bs key = Some b \<and> now - windowStart b \<ge> w)"
    | (over) b where "bs key = Some b" "now - windowStart b < w" "count b + 1 > limit"
    | (under) b where "bs key = Some b" "now - windowStart b < w" "count b + 1 \<le> limit"
    by (cases "bs key") force+
  then have part34: "map fst (take 2 hdrs) = [''X-RateLimit-Limit'', ''X-RateLimit-Remaining'']
      \<and> (\<forall>k. k \<noteq> key \<longrightarrow> bs' k = bs k)"
  proof cases
    case fresh
    show ?thesis unfolding hdrs_def bs'_def run_fresh [OF fresh] by simp
  next
    case over
    show ?thesis unfolding hdrs_def bs'_def run_over [OF over] by simp
  next
    case under
    show ?thesis unfolding hdrs_def bs'_def run_under [OF under] by simp
  qed
  show ?thesis
    by (rule conjI [OF part1 conjI [OF part2 part34]])
qed
theorem createRateLimiter_fixed_window_witness:
  "fst (createRateLimiter ''auth'' example_settings 0 example_request Map.empty) =
     Next example_request
   \<and> snd (snd (createRateLimiter ''auth'' example_settings 0 example_request Map.empty))
        ''auth:10.0.0.1'' = Some \<lparr>count = 1, windowStart = 0, windowMs = 1000\<rparr>
   \<and> fst (createRateLimiter ''auth'' example_settings 400 example_request
          [''auth:10.0.0.1'' \<mapsto> \<lparr>count = 3, windowStart = 0, windowMs = 1000\<rparr>]) =
     Respond \<lparr>res_status = 429,
              res_headers = [(''X-RateLimit-Limit'', JNum 3), (''X-RateLimit-Remaining'', JNum 0),
                             (''Retry-After'', JNum 1)],
              res_body = JObj [(''error'', JStr ''Too many requests''),
                               (''scope'', JStr ''auth'')]\<rparr>
   \<and> snd (snd (createRateLimiter ''auth'' example_settings 400 example_request
          [''auth:10.0.0.1'' \<mapsto> \<lparr>count = 3, windowStart = 0, windowMs = 1000\<rparr>]))
        ''auth:10.0.0.1'' = Some \<lparr>count = 4, windowStart = 0, windowMs = 1000\<rparr>
   \<and> fst (createRateLimiter ''auth'' example_settings 1000 example_request
          [''auth:10.0.0.1'' \<mapsto> \<lparr>count = 4, windowStart = 0, windowMs = 1000\<rparr>]) =
     Next example_request
   \<and> snd (snd (createRateLimiter ''auth'' example_settings 1000 example_request
          [''auth:10.0.0.1'' \<mapsto> \<lparr>count = 4, windowStart = 0, windowMs = 1000\<rparr>]))
        ''auth:10.0.0.1'' = Some \<lparr>count = 1, windowStart = 1000, windowMs = 1000\<rparr>"
proof -
  have ip: "getClientIp example_request = ''10.0.0.1''"
    by (simp add: getClientIp_def example_request_def truthy_def or_str_def)
  have lim: "getScopeLimit ''auth'' example_settings = 3"
    "rateLimit_windowMs example_settings = 1000"
    by (simp_all add: getScopeLimit_def example_settings_def)
  have c: "ceil_div_1000 600 = 1" by (simp add: ceil_div_1000_def)
  let ?b3 = "[''auth:10.0.0.1'' \<mapsto> \<lparr>count = 3, windowStart = 0, windowMs = 1000\<rparr>]"
  let ?b4 = "[''auth:10.0.0.1'' \<mapsto> \<lparr>count = 4, windowStart = 0, windowMs = 1000\<rparr>]"
  have 1: "fst (createRateLimiter ''auth'' example_settings 0 example_request Map.empty) =
             Next example_request
           \<and> snd (snd (createRateLimiter ''auth'' example_settings 0 example_request Map.empty))
                ''auth:10.0.0.1'' = Some \<lparr>count = 1, windowStart = 0, windowMs = 1000\<rparr>"
    using createRateLimiter_fixed_window [where bs = Map.empty and scope = "''auth''" and req = example_request and now = 0 and s = example_settings]
    by (simp add: ip lim)
  have 2: "fst (createRateLimiter ''auth'' example_settings 400 example_request ?b3) =
     Respond \<lparr>res_status = 429,
              res_headers = [(''X-RateLimit-Limit'', JNum 3), (''X-RateLimit-Remaining'', JNum 0),
                             (''Retry-After'', JNum 1)],
              res_body = JObj [(''error'', JStr ''Too many requests''),
                               (''scope'', JStr ''auth'')]\<rparr>
     \<and> snd (snd (createRateLimiter ''auth'' example_settings 400 example_request ?b3))
        ''auth:10.0.0.1'' = Some \<lparr>count = 4, windowStart = 0, windowMs = 1000\<rparr>"
    using createRateLimiter_fixed_window [where bs = ?b3 and scope = "''auth''" and req = example_request and now = 400 and s = example_settings]
    by (simp add: ip lim c)
  have 3: "fst (createRateLimiter ''auth'' example_settings 1000 example_request ?b4) =
             Next example_request
     \<and> snd (snd (createRateLimiter ''auth'' example_settings 1000 example_request ?b4))
        ''auth:10.0.0.1'' = Some \<lparr>count = 1, windowStart = 1000, windowMs = 1000\<rparr>"
    using createRateLimiter_fixed_window [where bs = ?b4 and scope = "''auth''" and req = example_request and now = 1000 and s = example_settings]
    by (simp add: ip lim)
  show ?thesis using 1 2 3 by simp
qed

section \<open>Verification of credential revocation by session version\<close>

lemma authenticateToken_token_path:
  assumes "\<not> DISABLE_ACCOUNTS e"
    and "\<not> (req_user req \<noteq> None \<and> req_apiKey req)"
    and "getTokenFromRequest req = Some token"
    and "jwt_verify e token = Some decoded"
    and "findById db (p_id decoded) = Some dbUser"
  shows "authenticateToken e now req db =
           (if status dbUser = ''SUSPENDED'' \<or> \<not> is_active dbUser then
              (Respond (respond 403 (JObj [(''error'', JStr ''Account suspended'')])), db)
            else if or_int (p_sessionVersion decoded) 1
                    \<noteq> or_int (Some (session_version dbUser)) 1 then
              (Respond (respond 401 (JObj [(''error'', JStr ''Session expired'')])), db)
            else
              (Next (req\<lparr>req_user := Some
                 \<lparr>ru_id = user_id dbUser,
                  ru_username = username dbUser,
                  ru_role = Some (or_str (Some (role dbUser)) USER),
                  ru_status = or_str (Some (status dbUser)) ''ACTIVE'',
                  ru_is_admin = is_admin dbUser,
                  ru_session_version = or_int (Some (session_version dbUser)) 1,
                  ru_force_password_reset = force_password_reset dbUser,
                  ru_permissions = None\<rparr>\<rparr>), db))"
proof -
  have n: "(req_user req \<noteq> None \<and> req_apiKey req) = False"
    using assms(2) by blast
  show ?thesis
    unfolding authenticateToken_def n using assms(1,3,4,5) by simp
qed

lemma incrementSessionVersion_map:
  "i \<noteq> 0 \<Longrightarrow>
   fst (incrementSessionVersion i db) =
     map (\<lambda>r. if user_id r = i then r\<lparr>session_version := session_version r + 1\<rparr> else r) db"
  by (simp add: incrementSessionVersion_def incrementSessionVersionStmt_def sql_update_def
      guarded_cond)

lemma incrementSessionVersion_readback:
  assumes "i \<noteq> 0" and "findById db i = Some u"
  shows "findById (fst (incrementSessionVersion i db)) i =
           Some (u\<lparr>session_version := session_version u + 1\<rparr>)"
  using findById_map_update
          [of "\<lambda>r. r\<lparr>session_version := session_version r + 1\<rparr>" "\<lambda>r. user_id r = i" db i]
        assms findById_Some_D [OF assms(2)]
  by (simp add: incrementSessionVersion_map)

text \<open>
  C3, as the code has it. Where accounts are enabled and no API-key identity is on the
  request, a request whose token verifies and whose user exists is answered 403 when the
  account is suspended, before any comparison; otherwise the session version of the token
  (1 when absent or 0) is compared with the stored one (1 when 0), and a mismatch is
  answered 401 "Session expired", while equal versions let the request proceed.
  Consequently, for a user other than id 0 who is not suspended and whose stored version
  is at least 1, a credential minted before \<open>incrementSessionVersion\<close> is answered 401
  after it, and a credential minted from the refreshed row proceeds. A credential
  minted from a row is one that verifies to the payload built from that row.
\<close>

theorem session_version_mismatch_rejected:
  assumes "\<not> DISABLE_ACCOUNTS e"
  shows "(\<forall>req token decoded dbUser.
            \<not> (req_user req \<noteq> None \<and> req_apiKey req)
            \<and> getTokenFromRequest req = Some token
            \<and> jwt_verify e token = Some decoded
            \<and> findById db (p_id decoded) = Some dbUser \<longrightarrow>
            (status dbUser = ''SUSPENDED'' \<or> \<not> is_active dbUser \<longrightarrow>
               authenticateToken e now req db =
                 (Respond (respond 403 (JObj [(''error'', JStr ''Account suspended'')])), db))
            \<and> (status dbUser \<noteq> ''SUSPENDED'' \<and> is_active dbUser
                \<and> or_int (p_sessionVersion decoded) 1
                    \<noteq> or_int (Some (session_version dbUser)) 1 \<longrightarrow>
               authenticateToken e now req db =
                 (Respond (respond 401 (JObj [(''error'', JStr ''Session expired'')])), db))
            \<and> (status dbUser \<noteq> ''SUSPENDED'' \<and> is_active dbUser
                \<and> or_int (p_sessionVersion decoded) 1
                    = or_int (Some (session_version dbUser)) 1 \<longrightarrow>
               (\<exists>r. authenticateToken e now req db = (Next r, db))))
       \<and> (\<forall>i u req_old req_new.
            i \<noteq> 0 \<and> findById db i = Some u \<and> 1 \<le> session_version u
            \<and> status u \<noteq> ''SUSPENDED'' \<and> is_active u
            \<and> \<not> (req_user req_old \<noteq> None \<and> req_apiKey req_old)
            \<and> \<not> (req_user req_new \<noteq> None \<and> req_apiKey req_new)
            \<and> getTokenFromRequest req_old = Some (createSessionToken e u)
            \<and> jwt_verify e (createSessionToken e u) = Some (session_payload u)
            \<and> getTokenFromRequest req_new =
                 Some (createSessionToken e (u\<lparr>session_version := session_version u + 1\<rparr>))
            \<and> jwt_verify e (createSessionToken e (u\<lparr>session_version := session_version u + 1\<rparr>))
                 = Some (session_payload (u\<lparr>session_version := session_version u + 1\<rparr>)) \<longrightarrow>
            findById (fst (incrementSessionVersion i db)) i =
              Some (u\<lparr>session_version := session_version u + 1\<rparr>)
            \<and> fst (authenticateToken e now req_old (fst (incrementSessionVersion i db))) =
                 Respond (respond 401 (JObj [(''error'', JStr ''Session expired'')]))
            \<and> (\<exists>r. fst (authenticateToken e now req_new (fst (incrementSessionVersion i db))) =
                      Next r))"
proof (intro conjI allI impI; (elim conjE)?)
  fix req token decoded dbUser
  assume a: "\<not> (req_user req \<noteq> None \<and> req_apiKey req)"
    "getTokenFromRequest req = Some token" "jwt_verify e token = Some decoded"
    "findById db (p_id decoded) = Some dbUser"
  note run = authenticateToken_token_path [OF assms a, of now]
  {
    assume "status dbUser = ''SUSPENDED'' \<or> \<not> is_active dbUser"
    then show "authenticateToken e now req db =
        (Respond (respond 403 (JObj [(''error'', JStr ''Account suspended'')])), db)"
      unfolding run by simp
  next
    assume "status dbUser \<noteq> ''SUSPENDED''" "is_active dbUser"
      "or_int (p_sessionVersion decoded) 1 \<noteq> or_int (Some (session_version dbUser)) 1"
    then show "authenticateToken e now req db =
        (Respond (respond 401 (JObj [(''error'', JStr ''Session expired'')])), db)"
      unfolding run by simp
  next
    assume "status dbUser \<noteq> ''SUSPENDED''" "is_active dbUser"
      "or_int (p_sessionVersion decoded) 1 = or_int (Some (session_version dbUser)) 1"
    then show "\<exists>r. authenticateToken e now req db = (Next r, db)"
      unfolding run by simp
  }
next
  fix i u req_old req_new
  assume b: "i \<noteq> 0" "findById db i = Some u" "1 \<le> session_version u"
    "status u \<noteq> ''SUSPENDED''" "is_active u"
    "\<not> (req_user req_old \<noteq> None \<and> req_apiKey req_old)"
    "\<not> (req_user req_new \<noteq> None \<and> req_apiKey req_new)"
    "getTokenFromRequest req_old = Some (createSessionToken e u)"
    "jwt_verify e (createSessionToken e u) = Some (session_payload u)"
    "getTokenFromRequest req_new =
       Some (createSessionToken e (u\<lparr>session_version := session_version u + 1\<rparr>))"
    "jwt_verify e (createSessionToken e (u\<lparr>session_version := session_version u + 1\<rparr>))
       = Some (session_payload (u\<lparr>session_version := session_version u + 1\<rparr>))"
  let ?u' = "u\<lparr>session_version := session_version u + 1\<rparr>"
  let ?db' = "fst (incrementSessionVersion i db)"
  have uid: "user_id u = i" using findById_Some_D [OF b(2)] by simp
  have rb: "findById ?db' i = Some ?u'"
    by (rule incrementSessionVersion_readback [OF b(1,2)])
  have rb_old: "findById ?db' (p_id (session_payload u)) = Some ?u'"
    using rb uid by (simp add: session_payload_def)
  have rb_new: "findById ?db' (p_id (session_payload ?u')) = Some ?u'"
    using rb uid by (simp add: session_payload_def)
  {
    show "findById ?db' i = Some ?u'" by (rule rb)
  next
    show "fst (authenticateToken e now req_old ?db') =
        Respond (respond 401 (JObj [(''error'', JStr ''Session expired'')]))"
      unfolding authenticateToken_token_path [OF assms b(6) b(8) b(9) rb_old]
      using b(3,4,5) by (simp add: session_payload_def or_int_def)
  next
    show "\<exists>r. fst (authenticateToken e now req_new ?db') = Next r"
      unfolding authenticateToken_token_path [OF assms b(7) b(10) b(11) rb_new]
      using b(3,4,5) by (simp add: session_payload_def or_int_def)
  }
qed
lemma example_tokens:
  "createSessionToken example_env example_user = ''iiiiiii.v.Alice.USER.ACTIVE''"
  "createSessionToken example_env (example_user\<lparr>session_version := 2\<rparr>)
     = ''iiiiiii.vv.Alice.USER.ACTIVE''"
  "jwt_verify example_env ''iiiiiii.v.Alice.USER.ACTIVE'' = Some (session_payload example_user)"
  "jwt_verify example_env ''iiiiiii.vv.Alice.USER.ACTIVE''
     = Some (session_payload (example_user\<lparr>session_version := 2\<rparr>))"
  by (simp_all add: createSessionToken_def session_payload_def example_env_def example_sign_def
      example_verify_def example_user_def or_str_def or_int_def eval_nat_numeral)

theorem session_version_mismatch_rejected_witness:
  "findById (fst (incrementSessionVersion 7 (users example_store))) 7 =
     Some (example_user\<lparr>session_version := 2\<rparr>)
   \<and> fst (authenticateToken example_env 0
          (example_request\<lparr>bytestashauth := Some ''Bearer iiiiiii.v.Alice.USER.ACTIVE''\<rparr>)
          (fst (incrementSessionVersion 7 (users example_store)))) =
       Respond (respond 401 (JObj [(''error'', JStr ''Session expired'')]))
   \<and> (\<exists>r. fst (authenticateToken example_env 0
          (example_request\<lparr>bytestashauth := Some ''Bearer iiiiiii.vv.Alice.USER.ACTIVE''\<rparr>)
          (fst (incrementSessionVersion 7 (users example_store)))) = Next r)
   \<and> authenticateToken example_env 0
        (example_request\<lparr>bytestashauth := Some ''Bearer iiiiiii.v.Alice.USER.ACTIVE''\<rparr>)
        [example_user\<lparr>session_version := 2\<rparr>] =
       (Respond (respond 401 (JObj [(''error'', JStr ''Session expired'')])),
        [example_user\<lparr>session_version := 2\<rparr>])"
proof -
  let ?old = "example_request\<lparr>bytestashauth := Some ''Bearer iiiiiii.v.Alice.USER.ACTIVE''\<rparr>"
  let ?new = "example_request\<lparr>bytestashauth := Some ''Bearer iiiiiii.vv.Alice.USER.ACTIVE''\<rparr>"
  have acc: "\<not> DISABLE_ACCOUNTS example_env" by (simp add: example_env_def)
  have u: "findById (users example_store) 7 = Some example_user"
    by (simp add: findById_def example_store_def example_admin_def example_user_def)
  have props: "1 \<le> session_version example_user" "status example_user \<noteq> ''SUSPENDED''"
    "is_active example_user" "session_version example_user + 1 = 2"
    by (simp_all add: example_user_def)
  have nokey: "\<not> (req_user ?old \<noteq> None \<and> req_apiKey ?old)"
    "\<not> (req_user ?new \<noteq> None \<and> req_apiKey ?new)"
    by (simp_all add: example_request_def)
  have toks: "getTokenFromRequest ?old = Some ''iiiiiii.v.Alice.USER.ACTIVE''"
    "getTokenFromRequest ?new = Some ''iiiiiii.vv.Alice.USER.ACTIVE''"
    using example_getToken [of "''iiiiiii.v.Alice.USER.ACTIVE''"]
      example_getToken [of "''iiiiiii.vv.Alice.USER.ACTIVE''"]
    by simp_all
  have u2: "findById [example_user\<lparr>session_version := 2\<rparr>] (p_id (session_payload example_user))
              = Some (example_user\<lparr>session_version := 2\<rparr>)"
    by (simp add: findById_def session_payload_def)
  have v2: "or_int (p_sessionVersion (session_payload example_user)) 1
              \<noteq> or_int (Some (session_version (example_user\<lparr>session_version := 2\<rparr>))) 1"
    by (simp add: session_payload_def or_int_def example_user_def)
  have general: "authenticateToken example_env 0 ?old [example_user\<lparr>session_version := 2\<rparr>] =
       (Respond (respond 401 (JObj [(''error'', JStr ''Session expired'')])),
        [example_user\<lparr>session_version := 2\<rparr>])"
    using session_version_mismatch_rejected [OF acc, of "[example_user\<lparr>session_version := 2\<rparr>]" 0,
        THEN conjunct1, rule_format,
        of ?old "''iiiiiii.v.Alice.USER.ACTIVE''" "session_payload example_user"
           "example_user\<lparr>session_version := 2\<rparr>"]
      nokey(1) toks(1) example_tokens(3) u2 v2 props(2,3)
    by simp
  have scenario: "findById (fst (incrementSessionVersion 7 (users example_store))) 7 =
     Some (example_user\<lparr>session_version := 2\<rparr>)
   \<and> fst (authenticateToken example_env 0 ?old
          (fst (incrementSessionVersion 7 (users example_store)))) =
       Respond (respond 401 (JObj [(''error'', JStr ''Session expired'')]))
   \<and> (\<exists>r. fst (authenticateToken example_env 0 ?new
          (fst (incrementSessionVersion 7 (users example_store)))) = Next r)"
    using session_version_mismatch_rejected [OF acc, of "users example_store" 0,
        THEN conjunct2, rule_format, of 7 example_user ?old ?new]
      u props nokey toks example_tokens
    by simp
  show ?thesis using scenario general by simp
qed

text \<open>
  The claim as stated, 401 on every mismatch, fails for a suspended account: a user
  suspended after the token was minted (stored version 2, token version 1) is answered
  403 "Account suspended", not 401.
\<close>

theorem suspended_mismatch_counterexample:
  "jwt_verify example_env ''iiiiiii.v.Alice.USER.ACTIVE'' = Some (session_payload example_user)
   \<and> or_int (p_sessionVersion (session_payload example_user)) 1
       \<noteq> or_int (Some (session_version
            (example_user\<lparr>status := ''SUSPENDED'', is_active := False, session_version := 2\<rparr>))) 1
   \<and> authenticateToken example_env 0
        (example_request\<lparr>bytestashauth := Some ''Bearer iiiiiii.v.Alice.USER.ACTIVE''\<rparr>)
        [example_user\<lparr>status := ''SUSPENDED'', is_active := False, session_version := 2\<rparr>]
       = (Respond (respond 403 (JObj [(''error'', JStr ''Account suspended'')])),
          [example_user\<lparr>status := ''SUSPENDED'', is_active := False, session_version := 2\<rparr>])"
proof -
  let ?old = "example_request\<lparr>bytestashauth := Some ''Bearer iiiiiii.v.Alice.USER.ACTIVE''\<rparr>"
  let ?s = "example_user\<lparr>status := ''SUSPENDED'', is_active := False, session_version := 2\<rparr>"
  have acc: "\<not> DISABLE_ACCOUNTS example_env" by (simp add: example_env_def)
  have nokey: "\<not> (req_user ?old \<noteq> None \<and> req_apiKey ?old)"
    by (simp add: example_request_def)
  have tok: "getTokenFromRequest ?old = Some ''iiiiiii.v.Alice.USER.ACTIVE''"
    using example_getToken [of "''iiiiiii.v.Alice.USER.ACTIVE''"] by simp
  have u: "findById [?s] (p_id (session_payload example_user)) = Some ?s"
    by (simp add: findById_def session_payload_def example_user_def)
  have v: "or_int (p_sessionVersion (session_payload example_user)) 1
       \<noteq> or_int (Some (session_version ?s)) 1"
    by (simp add: session_payload_def or_int_def example_user_def)
  show ?thesis
    using authenticateToken_token_path [OF acc nokey tok example_tokens(3) u, of 0] v
      example_tokens(3)
    by simp
qed

section \<open>Verification of the admin routes\<close>

lemma fst_updateStatus:
  "i \<noteq> 0 \<Longrightarrow>
   fst (updateStatus i s db) =
     map (\<lambda>r. if user_id r = i
                then r\<lparr>status := s, is_active := (s \<noteq> ''SUSPENDED'')\<rparr> else r) db"
  by (simp add: updateStatus_def updateStatusStmt_def sql_update_def guarded_cond)

lemma fst_updateRole:
  "i \<noteq> 0 \<Longrightarrow>
   fst (updateRole i x db) =
     map (\<lambda>r. if user_id r = i
                then r\<lparr>role := x, is_admin := (x = SUPER_ADMIN \<or> x = ADMIN)\<rparr> else r) db"
  by (simp add: updateRole_def updateRoleStmt_def sql_update_def guarded_cond)

lemma fst_setForcePasswordReset:
  "i \<noteq> 0 \<Longrightarrow>
   fst (setForcePasswordReset i v db) =
     map (\<lambda>r. if user_id r = i
                then r\<lparr>force_password_reset := v, session_version := session_version r + 1\<rparr>
                else r) db"
  by (simp add: setForcePasswordReset_def setForcePasswordResetStmt_def sql_update_def
      guarded_cond)

lemma readback_update:
  assumes "findById db i = Some u" and "\<And>r. user_id (f r) = user_id r"
  shows "findById (map (\<lambda>r. if user_id r = i then f r else r) db) i = Some (f u)"
  using findById_map_update [of f "\<lambda>r. user_id r = i" db i] assms
    findById_Some_D [OF assms(1)]
  by simp

lemma setUserStatus_row:
  assumes "i \<noteq> 0" and "findById db i = Some u"
  shows "findById (fst (setUserStatus i s db)) i =
           Some (u\<lparr>status := s, is_active := (s \<noteq> ''SUSPENDED''),
                   session_version := session_version u + 1\<rparr>)"
proof -
  let ?db1 = "fst (updateStatus i s db)"
  have 1: "findById ?db1 i = Some (u\<lparr>status := s, is_active := (s \<noteq> ''SUSPENDED'')\<rparr>)"
    unfolding fst_updateStatus [OF assms(1)]
    by (rule readback_update [OF assms(2)]) simp
  have 2: "fst (setUserStatus i s db) = fst (incrementSessionVersion i ?db1)"
    by (simp add: setUserStatus_def split_def Let_def)
  show ?thesis
    unfolding 2 using incrementSessionVersion_readback [OF assms(1) 1] by simp
qed

lemma setUserRole_row:
  assumes "i \<noteq> 0" and "findById db i = Some u"
  shows "findById (fst (setUserRole i x db)) i =
           Some (u\<lparr>role := x, is_admin := (x = SUPER_ADMIN \<or> x = ADMIN),
                   session_version := session_version u + 1\<rparr>)"
proof -
  let ?db1 = "fst (updateRole i x db)"
  have 1: "findById ?db1 i = Some (u\<lparr>role := x, is_admin := (x = SUPER_ADMIN \<or> x = ADMIN)\<rparr>)"
    unfolding fst_updateRole [OF assms(1)]
    by (rule readback_update [OF assms(2)]) simp
  have 2: "fst (setUserRole i x db) = fst (incrementSessionVersion i ?db1)"
    by (simp add: setUserRole_def split_def Let_def)
  show ?thesis
    unfolding 2 using incrementSessionVersion_readback [OF assms(1) 1] by simp
qed

lemma resetUserSessions_row:
  assumes "i \<noteq> 0" and "findById db i = Some u"
  shows "findById (fst (resetUserSessions i db)) i =
           Some (u\<lparr>session_version := session_version u + 1\<rparr>)"
  using incrementSessionVersion_readback [OF assms]
  by (simp add: resetUserSessions_def split_def Let_def)

lemma adminSetForcePasswordReset_row:
  assumes "i \<noteq> 0" and "findById db i = Some u"
  shows "findById (fst (adminSetForcePasswordReset i v db)) i =
           Some (u\<lparr>force_password_reset := v, session_version := session_version u + 1\<rparr>)"
proof -
  have "fst (adminSetForcePasswordReset i v db) = fst (setForcePasswordReset i v db)"
    by (simp add: adminSetForcePasswordReset_def split_def Let_def)
  then show ?thesis
    unfolding fst_setForcePasswordReset [OF assms(1)]
    using readback_update [OF assms(2),
        of "\<lambda>r. r\<lparr>force_password_reset := v, session_version := session_version r + 1\<rparr>"]
    by simp
qed
lemma repository_updates_keep_session_version:
  "map session_version (fst (updateStatus i s db)) = map session_version db"
  "map session_version (fst (updateRole i x db)) = map session_version db"
  by (simp_all add: updateStatus_def updateStatusStmt_def updateRole_def updateRoleStmt_def
      sql_update_def)

text \<open>
  C4. Against the admin repository modelled from the spec: for a target user other than
  id 0 that is in the table, the handler of a status change, of a role change and of a
  session reset (each refused when the target is the acting admin, the first two also on
  a value outside the editable ones) and the handler of a force-password-reset leave the
  row of the target with \<open>session_version\<close> one higher than before, next to the column
  they set. (The statements \<open>updateStatusStmt\<close> and \<open>updateRoleStmt\<close> of the user
  repository do not touch \<open>session_version\<close> themselves; \<open>setForcePasswordResetStmt\<close> and
  \<open>incrementSessionVersionStmt\<close> do.)
\<close>

theorem admin_operations_increment_session_version:
  assumes "userId \<noteq> 0" and "findById (users st) userId = Some u"
  shows "(userId \<noteq> ru_id actor
          \<and> toUpperCase (or_str body_status []) \<in> set editableStatuses \<longrightarrow>
            findById (users (snd (patch_status actor userId body_status st))) userId =
              Some (u\<lparr>status := toUpperCase (or_str body_status []),
                      is_active := (toUpperCase (or_str body_status []) \<noteq> ''SUSPENDED''),
                      session_version := session_version u + 1\<rparr>))
       \<and> (userId \<noteq> ru_id actor
          \<and> toUpperCase (or_str body_role []) \<in> set editableRoles \<longrightarrow>
            findById (users (snd (patch_role actor userId body_role st))) userId =
              Some (u\<lparr>role := toUpperCase (or_str body_role []),
                      is_admin := (toUpperCase (or_str body_role []) = SUPER_ADMIN
                                   \<or> toUpperCase (or_str body_role []) = ADMIN),
                      session_version := session_version u + 1\<rparr>))
       \<and> (userId \<noteq> ru_id actor \<longrightarrow>
            findById (users (snd (patch_reset_sessions actor userId st))) userId =
              Some (u\<lparr>session_version := session_version u + 1\<rparr>))
       \<and> findById (users (snd (patch_force_password_reset actor userId body_flag st))) userId =
            Some (u\<lparr>force_password_reset := normalizeBool body_flag True,
                    session_version := session_version u + 1\<rparr>)"
proof (intro conjI impI; (elim conjE)?)
  assume a: "userId \<noteq> ru_id actor" "toUpperCase (or_str body_status []) \<in> set editableStatuses"
  have "users (snd (patch_status actor userId body_status st)) =
          fst (setUserStatus userId (toUpperCase (or_str body_status [])) (users st))"
    using a by (simp add: patch_status_def assertNotSelfMutation_def Let_def split_def
        writeAdminAudit_def audit_log_def)
  then show "findById (users (snd (patch_status actor userId body_status st))) userId =
              Some (u\<lparr>status := toUpperCase (or_str body_status []),
                      is_active := (toUpperCase (or_str body_status []) \<noteq> ''SUSPENDED''),
                      session_version := session_version u + 1\<rparr>)"
    using setUserStatus_row [OF assms] by simp
next
  assume a: "userId \<noteq> ru_id actor" "toUpperCase (or_str body_role []) \<in> set editableRoles"
  have "users (snd (patch_role actor userId body_role st)) =
          fst (setUserRole userId (toUpperCase (or_str body_role [])) (users st))"
    using a by (simp add: patch_role_def assertNotSelfMutation_def Let_def split_def
        writeAdminAudit_def audit_log_def)
  then show "findById (users (snd (patch_role actor userId body_role st))) userId =
              Some (u\<lparr>role := toUpperCase (or_str body_role []),
                      is_admin := (toUpperCase (or_str body_role []) = SUPER_ADMIN
                                   \<or> toUpperCase (or_str body_role []) = ADMIN),
                      session_version := session_version u + 1\<rparr>)"
    using setUserRole_row [OF assms] by simp
next
  assume a: "userId \<noteq> ru_id actor"
  have "users (snd (patch_reset_sessions actor userId st)) =
          fst (resetUserSessions userId (users st))"
    using a by (simp add: patch_reset_sessions_def assertNotSelfMutation_def split_def Let_def
        writeAdminAudit_def audit_log_def)
  then show "findById (users (snd (patch_reset_sessions actor userId st))) userId =
              Some (u\<lparr>session_version := session_version u + 1\<rparr>)"
    using resetUserSessions_row [OF assms] by simp
next
  have "users (snd (patch_force_password_reset actor userId body_flag st)) =
          fst (adminSetForcePasswordReset userId (normalizeBool body_flag True) (users st))"
    by (simp add: patch_force_password_reset_def Let_def split_def
        writeAdminAudit_def audit_log_def)
  then show "findById (users (snd (patch_force_password_reset actor userId body_flag st))) userId =
            Some (u\<lparr>force_password_reset := normalizeBool body_flag True,
                    session_version := session_version u + 1\<rparr>)"
    using adminSetForcePasswordReset_row [OF assms] by simp
qed

theorem admin_operations_increment_session_version_witness:
  "findById (users (snd (patch_status (user_of_row example_admin) 7 (Some ''suspended'')
       example_store))) 7 =
     Some (example_user\<lparr>status := ''SUSPENDED'', is_active := False, session_version := 2\<rparr>)
   \<and> findById (users (snd (patch_role (user_of_row example_admin) 7 (Some ''moderator'')
       example_store))) 7 =
     Some (example_user\<lparr>role := MODERATOR, session_version := 2\<rparr>)
   \<and> findById (users (snd (patch_reset_sessions (user_of_row example_admin) 7 example_store))) 7 =
     Some (example_user\<lparr>session_version := 2\<rparr>)
   \<and> findById (users (snd (patch_force_password_reset (user_of_row example_admin) 7 None
       example_store))) 7 =
     Some (example_user\<lparr>force_password_reset := True, session_version := 2\<rparr>)"
proof -
  have t: "(7::int) \<noteq> 0" by simp
  have u: "findById (users example_store) 7 = Some example_user"
    by (simp add: findById_def example_store_def example_admin_def example_user_def)
  have actor: "7 \<noteq> ru_id (user_of_row example_admin)"
    by (simp add: user_of_row_def example_admin_def)
  have vals: "toUpperCase (or_str (Some ''suspended'') []) = ''SUSPENDED''"
    "toUpperCase (or_str (Some ''moderator'') []) = MODERATOR"
    by (simp_all add: or_str_def str_eval)
  have ok: "''SUSPENDED'' \<in> set editableStatuses" "MODERATOR \<in> set editableRoles"
    by (simp_all add: editableStatuses_def editableRoles_def Roles_def)
  have flag: "normalizeBool None True = True" by (simp add: normalizeBool_def)
  show ?thesis
    using admin_operations_increment_session_version [OF t u,
        of "user_of_row example_admin" "Some ''suspended''" "Some ''moderator''" None]
      actor vals ok flag
    by (simp add: example_user_def)
qed

section \<open>Verification of the login state machine\<close>

lemma recordFailedLogin_Some:
  "recordFailedLogin now (Some u) maxAttempts lockoutMinutes db =
     (if maxAttempts \<le> failed_login_attempts u + 1
         \<and> \<not> valid_date (now + max 1 lockoutMinutes * 60 * 1000)
      then None
      else Some
        (map (\<lambda>r. if user_id r = user_id u
                   then r\<lparr>failed_login_attempts := failed_login_attempts u + 1,
                          locked_until :=
                            (if maxAttempts \<le> failed_login_attempts u + 1
                             then Some (now + max 1 lockoutMinutes * 60 * 1000) else None)\<rparr>
                   else r) db))"
  by (simp add: recordFailedLogin_def updateFailedLoginStmt_def sql_update_def or_int_def Let_def)

text \<open>
  The branches of \<open>POST /login\<close>: the gate of the deployment, the locked user as the
  code reads the lock, and the wrong password.
\<close>

lemma login_disabled:
  "DISABLE_INTERNAL_ACCOUNTS e \<Longrightarrow>
   login e s now now' uname password st =
     (respond 403 (JObj [(''error'', JStr ''Internal accounts are disabled'')]), st)"
  by (simp add: login_def)

lemma login_locked:
  assumes "\<not> DISABLE_INTERNAL_ACCOUNTS e"
    and "findByUsername (users st) un = Some u"
    and "isLocked e now u"
  shows "login e s now now' (Some un) password st =
           (respond 423
              (JObj [(''error'', JStr ''Account temporarily locked due to failed login attempts''),
                     (''lockedUntil'', jopt_num (locked_until u))]),
            st\<lparr>audit_logs := audit_logs st @
                 [\<lparr>actor_id = Some (user_id u), action = ''auth.login.blocked'',
                   target_type = Some ''user'', target_id = JNum (user_id u),
                   metadata = JObj [(''reason'', JStr ''account_locked''),
                                    (''lockedUntil'', jopt_num (locked_until u))]\<rparr>]\<rparr>)"
  using assms by (simp add: login_def audit_log_def)

lemma login_wrong_password:
  assumes "\<not> DISABLE_INTERNAL_ACCOUNTS e"
    and "findByUsername (users st) un = Some u"
    and "\<not> isLocked e now u"
    and "verifyPassword e u password = Some False"
  shows "login e s now now' (Some un) password st =
           (case recordFailedLogin now' (Some u) (lockout_maxAttempts s)
                   (lockout_durationMinutes s) (users st) of
              None \<Rightarrow> (login_error, st\<lparr>verify_calls := verify_calls st + 1\<rparr>)
            | Some db' \<Rightarrow>
                (respond 401 (JObj [(''error'', JStr ''Invalid credentials'')]),
                 st\<lparr>verify_calls := verify_calls st + 1, users := db',
                    audit_logs := audit_logs st @
                      [\<lparr>actor_id = Some (user_id u), action = ''auth.login.failed'',
                        target_type = Some ''user'', target_id = JNum (user_id u),
                        metadata = JObj [(''reason'', JStr ''invalid_password'')]\<rparr>]\<rparr>))"
  using assms by (simp add: login_def audit_log_def split: option.split)

text \<open>
  C1, as the code has it. For a user record that is the row of its id, and a policy whose
  lock time is a valid date when a lock is due, recording one failed login attempt
  succeeds and rewrites that row: \<open>failed_login_attempts\<close> is one more than before;
  \<open>locked_until\<close> is \<open>now + max(1, lockoutMinutes)\<close> minutes, written as UTC text,
  exactly when the new count has reached \<open>maxAttempts\<close> (a configured duration below
  one minute counts as one minute), and NULL otherwise (an earlier lock is cleared). No
  other column and no other row changes.
\<close>

theorem recordFailedLogin_counts_and_locks:
  assumes "findById db (user_id u) = Some u"
    and "maxAttempts \<le> failed_login_attempts u + 1 \<longrightarrow>
           valid_date (now + max 1 lockoutMinutes * 60 * 1000)"
  shows "recordFailedLogin now (Some u) maxAttempts lockoutMinutes db =
           Some (map (\<lambda>r. if user_id r = user_id u
                           then r\<lparr>failed_login_attempts := failed_login_attempts u + 1,
                                  locked_until :=
                                    (if maxAttempts \<le> failed_login_attempts u + 1
                                     then Some (now + max 1 lockoutMinutes * 60 * 1000)
                                     else None)\<rparr>
                           else r) db)
       \<and> (\<forall>db'. recordFailedLogin now (Some u) maxAttempts lockoutMinutes db = Some db' \<longrightarrow>
             findById db' (user_id u) =
               Some (u\<lparr>failed_login_attempts := failed_login_attempts u + 1,
                       locked_until :=
                         (if maxAttempts \<le> failed_login_attempts u + 1
                          then Some (now + max 1 lockoutMinutes * 60 * 1000)
                          else None)\<rparr>)
             \<and> (\<forall>j. j \<noteq> user_id u \<longrightarrow> findById db' j = findById db j))"
proof -
  let ?f = "\<lambda>r. r\<lparr>failed_login_attempts := failed_login_attempts u + 1,
                     locked_until :=
                       (if maxAttempts \<le> failed_login_attempts u + 1
                        then Some (now + max 1 lockoutMinutes * 60 * 1000)
                        else None)\<rparr>"
  let ?db' = "map (\<lambda>r. if user_id r = user_id u then ?f r else r) db"
  have run: "recordFailedLogin now (Some u) maxAttempts lockoutMinutes db = Some ?db'"
    using assms(2) by (simp add: recordFailedLogin_Some)
  have row: "findById ?db' (user_id u) = Some (?f u)"
    using findById_map_update [of ?f "\<lambda>r. user_id r = user_id u" db "user_id u"] assms(1)
    by simp
  have frame: "findById ?db' j = findById db j" if "j \<noteq> user_id u" for j
  proof (cases "findById db j")
    case None
    then show ?thesis
      using findById_map_update [of ?f "\<lambda>r. user_id r = user_id u" db j] by simp
  next
    case (Some r)
    then have "user_id r = j" using findById_Some_D by blast
    then show ?thesis
      using findById_map_update [of ?f "\<lambda>r. user_id r = user_id u" db j] Some that by simp
  qed
  show ?thesis
    unfolding run using row frame by simp
qed

theorem recordFailedLogin_counts_and_locks_witness:
  "recordFailedLogin 5010 (Some (example_user\<lparr>failed_login_attempts := 1\<rparr>)) 2 5
     [example_admin, example_user\<lparr>failed_login_attempts := 1\<rparr>] =
     Some [example_admin, example_user\<lparr>failed_login_attempts := 2, locked_until := Some 305010\<rparr>]
   \<and> recordFailedLogin 5010 (Some example_user) 2 5 [example_admin, example_user] =
     Some [example_admin, example_user\<lparr>failed_login_attempts := 1\<rparr>]"
proof -
  let ?u = "example_user\<lparr>failed_login_attempts := 1\<rparr>"
  have 1: "findById [example_admin, ?u] (user_id ?u) = Some ?u"
    by (simp add: findById_def example_admin_def example_user_def)
  have 2: "(2::int) \<le> failed_login_attempts ?u + 1 \<longrightarrow> valid_date (5010 + max 1 5 * 60 * 1000)"
    by (simp add: valid_date_def)
  have 3: "findById [example_admin, example_user] (user_id example_user) = Some example_user"
    by (simp add: findById_def example_admin_def example_user_def)
  have 4: "(2::int) \<le> failed_login_attempts example_user + 1 \<longrightarrow>
             valid_date (5010 + max 1 5 * 60 * 1000)"
    by (simp add: valid_date_def)
  show ?thesis
    using recordFailedLogin_counts_and_locks [OF 1 2, THEN conjunct1]
      recordFailedLogin_counts_and_locks [OF 3 4, THEN conjunct1]
    by (simp add: example_admin_def example_user_def)
qed

text \<open>
  The claim as stated fails in three places. With a configured duration of 0 minutes the
  lock is not set to \<open>now + 0\<close> but one minute ahead. A failed attempt below the max
  against a user that carries an earlier lock changes \<open>locked_until\<close> as well as the
  counter. And for a configured duration whose lock time is beyond the range of a
  \<open>Date\<close> the attempt that reaches the max throws and writes nothing.
\<close>

theorem recordFailedLogin_duration_counterexample:
  "map_option (map locked_until) (recordFailedLogin 5000 (Some example_user) 1 0 [example_user])
     = Some [Some 65000]
   \<and> Some (65000::int) \<noteq> Some (5000 + 0 * 60 * 1000)
   \<and> locked_until (example_user\<lparr>locked_until := Some 10\<rparr>) = Some 10
   \<and> map_option (map locked_until)
        (recordFailedLogin 5000 (Some (example_user\<lparr>locked_until := Some 10\<rparr>)) 5 15
           [example_user\<lparr>locked_until := Some 10\<rparr>]) = Some [None]
   \<and> recordFailedLogin 5000 (Some example_user) 1 1000000000000 [example_user] = None"
  by (simp add: recordFailedLogin_def updateFailedLoginStmt_def sql_update_def or_int_def
      valid_date_def example_user_def)

text \<open>
  C2 at a server process whose zone is two hours east of UTC, with the policy of the
  lockout test (max 2 attempts, 5 minutes) and the user alice after one failed attempt.
  A wrong password at 1700000000000 is answered 401 and locks the account until
  1700000300000, written as UTC text. One second later \<open>lockedUntil\<close> is set and in the
  future, yet the login with the right password is not answered 423: \<open>isLocked\<close> reads
  the text as local time, two hours earlier, so the password is verified, the answer is
  200, the counter is reset and the lock is cleared. The same two requests at a server in
  a zone at UTC end in 423 with the row untouched and no second password check.
\<close>

theorem locked_login_east_of_utc_verifies_password:
  "login (example_env\<lparr>parse_local_time := (\<lambda>t. Some (t - 7200000))\<rparr>) example_settings
      1700000000000 1700000000000 (Some ''alice'') (Some ''wrong'')
      \<lparr>users = [example_user\<lparr>failed_login_attempts := 1\<rparr>], audit_logs = [], verify_calls = 0\<rparr>
     = (respond 401 (JObj [(''error'', JStr ''Invalid credentials'')]),
        \<lparr>users = [example_user\<lparr>failed_login_attempts := 2,
                                locked_until := Some 1700000300000\<rparr>],
         audit_logs = [\<lparr>actor_id = Some 7, action = ''auth.login.failed'',
                        target_type = Some ''user'', target_id = JNum 7,
                        metadata = JObj [(''reason'', JStr ''invalid_password'')]\<rparr>],
         verify_calls = 1\<rparr>)
   \<and> (1700000001000::int) < 1700000300000
   \<and> res_status (fst (login (example_env\<lparr>parse_local_time := (\<lambda>t. Some (t - 7200000))\<rparr>)
        example_settings 1700000001000 1700000001000 (Some ''alice'') (Some ''secret'')
        \<lparr>users = [example_user\<lparr>failed_login_attempts := 2,
                                locked_until := Some 1700000300000\<rparr>],
         audit_logs = [], verify_calls = 0\<rparr>)) = 200
   \<and> users (snd (login (example_env\<lparr>parse_local_time := (\<lambda>t. Some (t - 7200000))\<rparr>)
        example_settings 1700000001000 1700000001000 (Some ''alice'') (Some ''secret'')
        \<lparr>users = [example_user\<lparr>failed_login_attempts := 2,
                                locked_until := Some 1700000300000\<rparr>],
         audit_logs = [], verify_calls = 0\<rparr>))
       = [example_user\<lparr>failed_login_attempts := 0, locked_until := None,
                        last_login_at := Some 1700000001000\<rparr>]
   \<and> verify_calls (snd (login (example_env\<lparr>parse_local_time := (\<lambda>t. Some (t - 7200000))\<rparr>)
        example_settings 1700000001000 1700000001000 (Some ''alice'') (Some ''secret'')
        \<lparr>users = [example_user\<lparr>failed_login_attempts := 2,
                                locked_until := Some 1700000300000\<rparr>],
         audit_logs = [], verify_calls = 0\<rparr>)) = 1
   \<and> res_status (fst (login example_env
        example_settings 1700000001000 1700000001000 (Some ''alice'') (Some ''secret'')
        \<lparr>users = [example_user\<lparr>failed_login_attempts := 2,
                                locked_until := Some 1700000300000\<rparr>],
         audit_logs = [], verify_calls = 0\<rparr>)) = 423
   \<and> users (snd (login example_env
        example_settings 1700000001000 1700000001000 (Some ''alice'') (Some ''secret'')
        \<lparr>users = [example_user\<lparr>failed_login_attempts := 2,
                                locked_until := Some 1700000300000\<rparr>],
         audit_logs = [], verify_calls = 0\<rparr>))
       = [example_user\<lparr>failed_login_attempts := 2, locked_until := Some 1700000300000\<rparr>]
   \<and> verify_calls (snd (login example_env
        example_settings 1700000001000 1700000001000 (Some ''alice'') (Some ''secret'')
        \<lparr>users = [example_user\<lparr>failed_login_attempts := 2,
                                locked_until := Some 1700000300000\<rparr>],
         audit_logs = [], verify_calls = 0\<rparr>)) = 0"
  by (simp add: login_def isLocked_def verifyPassword_def recordFailedLogin_def
      updateFailedLoginStmt_def updateLastLogin_def updateLastLoginStmt_def sql_update_def
      or_int_def valid_date_def findByUsername_def findById_def audit_log_def respond_def
      example_env_def example_settings_def example_user_def str_eval Let_def)

section \<open>Verification of registration\<close>

lemma fold_max_ge: "a \<le> fold max xs (a::int) \<and> (\<forall>x \<in> set xs. x \<le> fold max xs a)"
proof (induction xs arbitrary: a)
  case Nil
  then show ?case by simp
next
  case (Cons y ys)
  have "max y a \<le> fold max ys (max y a)" using Cons.IH by blast
  then show ?case using Cons.IH [of "max y a"] by auto
qed

lemma next_rowid_fresh: "findById db (next_rowid db) = None"
proof -
  have "user_id u < next_rowid db" if "u \<in> set db" for u
    using that fold_max_ge [of 0 "map user_id db"] by (force simp: next_rowid_def)
  then show ?thesis
    by (force simp: findById_def find_None_iff)
qed

lemma find_append_None: "find P xs = None \<Longrightarrow> find P (xs @ ys) = find P ys"
  by (induction xs) (auto split: if_splits)

text \<open>
  \<open>userRepository.create\<close> either throws the error of the driver, which its \<open>catch\<close>
  block lets through, or appends the row and returns it.
\<close>

lemma create_cases:
  "create e now uname password opt_role opt_status db =
     (if list_ex (\<lambda>u. username u = uname) db then
        Inl (SqliteError ''SQLITE_CONSTRAINT_UNIQUE'' ''UNIQUE constraint failed: users.username'')
      else if list_ex (\<lambda>u. toLowerCase (username_normalized u)
                             = toLowerCase (toLowerCase uname)) db then
        Inl (SqliteError ''SQLITE_CONSTRAINT_UNIQUE''
               ''UNIQUE constraint failed: users.username_normalized'')
      else
        Inr (db @
               [\<lparr>user_id = next_rowid db, username = uname,
                 username_normalized = toLowerCase uname,
                 password_hash = bcrypt_hash e password,
                 oidc_id = None, oidc_provider = None, email = None, name = None,
                 created_at = now, is_admin = False, role = or_str opt_role USER,
                 status = or_str opt_status ''ACTIVE'',
                 failed_login_attempts = 0, locked_until = None,
                 force_password_reset = False, session_version = 1,
                 last_login_at = None, is_active = True\<rparr>],
             Some
               \<lparr>user_id = next_rowid db, username = uname,
                username_normalized = toLowerCase uname,
                password_hash = bcrypt_hash e password,
                oidc_id = None, oidc_provider = None, email = None, name = None,
                created_at = now, is_admin = False, role = or_str opt_role USER,
                status = or_str opt_status ''ACTIVE'',
                failed_login_attempts = 0, locked_until = None,
                force_password_reset = False, session_version = 1,
                last_login_at = None, is_active = True\<rparr>))"
proof -
  have "find (\<lambda>u. user_id u = next_rowid db) db = None"
    using next_rowid_fresh [of db] by (simp add: findById_def)
  then show ?thesis
    by (simp add: create_def create_catch_def Let_def findById_def find_append_None)
qed

lemma register_create_refused:
  assumes "\<not> (validate uname password = None
             \<and> \<not> list_ex (\<lambda>u. username u = uname) (users st)
             \<and> \<not> list_ex (\<lambda>u. toLowerCase (username_normalized u)
                                 = toLowerCase (toLowerCase uname)) (users st))"
  shows "snd (register_create validate e now uname password m desiredRole desiredStatus st) = st
       \<and> res_status (fst (register_create validate e now uname password m
                             desiredRole desiredStatus st)) = 400"
  using assms
  by (auto simp add: register_create_def createUser_def create_cases respond_def
      split: option.split)

lemma register_create_row:
  assumes "validate uname password = None"
    and "\<not> list_ex (\<lambda>u. username u = uname) (users st)"
    and "\<not> list_ex (\<lambda>u. toLowerCase (username_normalized u)
                         = toLowerCase (toLowerCase uname)) (users st)"
    and "desiredStatus \<noteq> []" and "desiredRole \<noteq> []"
  shows "\<exists>new. users (snd (register_create validate e now uname password m
                               desiredRole desiredStatus st)) = users st @ [new]
           \<and> role new = desiredRole \<and> status new = desiredStatus \<and> username new = uname
           \<and> res_status (fst (register_create validate e now uname password m
                                 desiredRole desiredStatus st))
               = (if desiredStatus = ''PENDING'' then 202 else 200)
           \<and> (desiredStatus = ''PENDING'' \<longrightarrow>
                (\<exists>rest. res_body (fst (register_create validate e now uname password m
                                         desiredRole desiredStatus st))
                   = JObj ((''pendingApproval'', JBool True) # rest)))"
  using assms
  by (simp add: register_create_def createUser_def create_cases or_str_def
      audit_log_def Let_def respond_def)

text \<open>
  What \<open>POST /register\<close> does from the creation on: the table is left as it was, or one
  row is appended, and the row appended has the role and the status asked for.
\<close>

lemma register_create_new:
  fixes validate e now uname password m desiredRole desiredStatus st
  defines "rc \<equiv> register_create validate e now uname password m desiredRole desiredStatus st"
  assumes "desiredStatus \<noteq> []" and "desiredRole \<noteq> []"
  shows "(users (snd rc) = users st \<or> (\<exists>new. users (snd rc) = users st @ [new]))
       \<and> (\<forall>new. users (snd rc) = users st @ [new] \<longrightarrow>
             role new = desiredRole \<and> status new = desiredStatus \<and> username new = uname
             \<and> res_status (fst rc) = (if desiredStatus = ''PENDING'' then 202 else 200)
             \<and> (desiredStatus = ''PENDING'' \<longrightarrow>
                  (\<exists>rest. res_body (fst rc) = JObj ((''pendingApproval'', JBool True) # rest))))"
proof (cases "validate uname password = None
             \<and> \<not> list_ex (\<lambda>u. username u = uname) (users st)
             \<and> \<not> list_ex (\<lambda>u. toLowerCase (username_normalized u)
                                 = toLowerCase (toLowerCase uname)) (users st)")
  case True
  then obtain new0 where new0: "users (snd rc) = users st @ [new0]"
      "role new0 = desiredRole" "status new0 = desiredStatus" "username new0 = uname"
      "res_status (fst rc) = (if desiredStatus = ''PENDING'' then 202 else 200)"
      "desiredStatus = ''PENDING'' \<longrightarrow>
         (\<exists>rest. res_body (fst rc) = JObj ((''pendingApproval'', JBool True) # rest))"
    using register_create_row [where validate = validate and uname = uname
        and password = password and st = st and desiredStatus = desiredStatus
        and desiredRole = desiredRole and e = e and now = now and m = m] assms(2,3)
    unfolding rc_def by blast
  have "new = new0" if "users (snd rc) = users st @ [new]" for new
    using that new0(1) by simp
  then show ?thesis using new0 by blast
next
  case False
  then have "snd rc = st"
    using register_create_refused [where validate = validate and uname = uname
        and password = password and st = st] unfolding rc_def by blast
  then show ?thesis by simp
qed

lemma normalizeRegistrationMode_cases:
  "normalizeRegistrationMode m \<in> set RegistrationModes"
  by (simp add: normalizeRegistrationMode_def Let_def RegistrationModes_def)

lemma register_unfold:
  "register validate e s now uname password st =
     (if DISABLE_INTERNAL_ACCOUNTS e then
        (respond 403 (JObj [(''error'', JStr ''Internal account registration is disabled'')]), st)
      else if filter (\<lambda>u. user_id u \<noteq> 0) (users st) = [] then
        register_create validate e now uname password
          (normalizeRegistrationMode (registration_mode s)) SUPER_ADMIN ''ACTIVE'' st
      else if normalizeRegistrationMode (registration_mode s) = ''CLOSED'' then
        (respond 403 (JObj [(''error'', JStr ''New account registration is closed'')]), st)
      else if normalizeRegistrationMode (registration_mode s) = ''APPROVAL'' then
        register_create validate e now uname password
          (normalizeRegistrationMode (registration_mode s)) USER ''PENDING'' st
      else
        register_create validate e now uname password
          (normalizeRegistrationMode (registration_mode s)) USER ''ACTIVE'' st)"
  by (simp add: register_def Let_def)

text \<open>
  C5. For every registration request, whatever the environment and the input, the
  table of users is left as it was or one account is appended; the registration mode is
  normalised to OPEN, APPROVAL or CLOSED. The account created has role SUPER_ADMIN and
  status ACTIVE when there was no user other than id 0, whatever the mode (answer 200);
  otherwise it has status ACTIVE (role USER, answer 200) when the mode is OPEN and status
  PENDING (role USER, answer 202 with \<open>pendingApproval\<close>) when the mode is APPROVAL.
  With users and mode CLOSED the request is refused with 403 and an error body and
  nothing changes. Accounts are created: where internal accounts are enabled, the input
  passes validation and the username is not taken (compared without case), an account
  with the username asked for is appended, unless there are users and the mode is CLOSED.
\<close>

theorem register_bootstrap_and_modes:
  fixes validate e s now uname password st
  defines "r \<equiv> register validate e s now uname password st"
    and "m \<equiv> normalizeRegistrationMode (registration_mode s)"
    and "others \<equiv> filter (\<lambda>u. user_id u \<noteq> 0) (users st)"
  shows "(\<forall>new. users (snd r) = users st @ [new] \<longrightarrow>
            username new = uname
            \<and> (others = [] \<longrightarrow>
                 role new = SUPER_ADMIN \<and> status new = ''ACTIVE'' \<and> res_status (fst r) = 200)
            \<and> (others \<noteq> [] \<and> m = ''OPEN'' \<longrightarrow>
                 role new = USER \<and> status new = ''ACTIVE'' \<and> res_status (fst r) = 200)
            \<and> (others \<noteq> [] \<and> m = ''APPROVAL'' \<longrightarrow>
                 role new = USER \<and> status new = ''PENDING'' \<and> res_status (fst r) = 202
                 \<and> (\<exists>rest. res_body (fst r) = JObj ((''pendingApproval'', JBool True) # rest))))
       \<and> (others \<noteq> [] \<and> m = ''CLOSED'' \<longrightarrow>
            snd r = st \<and> res_status (fst r) = 403
            \<and> (\<exists>msg. res_body (fst r) = JObj [(''error'', JStr msg)]))
       \<and> (m = ''OPEN'' \<or> m = ''APPROVAL'' \<or> m = ''CLOSED'')
       \<and> (users (snd r) = users st \<or> (\<exists>new. users (snd r) = users st @ [new]))
       \<and> (\<not> DISABLE_INTERNAL_ACCOUNTS e \<and> validate uname password = None
          \<and> \<not> list_ex (\<lambda>u. username u = uname) (users st)
          \<and> \<not> list_ex (\<lambda>u. toLowerCase (username_normalized u)
                              = toLowerCase (toLowerCase uname)) (users st)
          \<and> \<not> (others \<noteq> [] \<and> m = ''CLOSED'') \<longrightarrow>
            (\<exists>new. users (snd r) = users st @ [new]))"
proof -
  have modes: "m = ''OPEN'' \<or> m = ''APPROVAL'' \<or> m = ''CLOSED''"
    using normalizeRegistrationMode_cases [of "registration_mode s"]
    by (simp add: m_def RegistrationModes_def)
  have run: "r =
     (if DISABLE_INTERNAL_ACCOUNTS e then
        (respond 403 (JObj [(''error'', JStr ''Internal account registration is disabled'')]), st)
      else if others = [] then
        register_create validate e now uname password m SUPER_ADMIN ''ACTIVE'' st
      else if m = ''CLOSED'' then
        (respond 403 (JObj [(''error'', JStr ''New account registration is closed'')]), st)
      else if m = ''APPROVAL'' then
        register_create validate e now uname password m USER ''PENDING'' st
      else
        register_create validate e now uname password m USER ''ACTIVE'' st)"
    unfolding r_def m_def others_def by (rule register_unfold)
  have closed: "others \<noteq> [] \<and> m = ''CLOSED'' \<longrightarrow>
            snd r = st \<and> res_status (fst r) = 403
            \<and> (\<exists>msg. res_body (fst r) = JObj [(''error'', JStr msg)])"
    unfolding run by (simp add: respond_def)
  have shape: "users (snd r) = users st \<or> (\<exists>new. users (snd r) = users st @ [new])"
  proof -
    consider (off) "DISABLE_INTERNAL_ACCOUNTS e"
      | (boot) "\<not> DISABLE_INTERNAL_ACCOUNTS e" "others = []"
      | (closed) "\<not> DISABLE_INTERNAL_ACCOUNTS e" "others \<noteq> []" "m = ''CLOSED''"
      | (pend) "\<not> DISABLE_INTERNAL_ACCOUNTS e" "others \<noteq> []" "m = ''APPROVAL''"
      | (actv) "\<not> DISABLE_INTERNAL_ACCOUNTS e" "others \<noteq> []" "m = ''OPEN''"
      using modes by blast
    then show ?thesis
    proof cases
      case off
      then show ?thesis unfolding run by simp
    next
      case boot
      then show ?thesis unfolding run using register_create_new
        [where validate = validate and e = e and now = now
          and uname = uname and password = password and m = m and st = st
          and desiredRole = SUPER_ADMIN and desiredStatus = "''ACTIVE''"]
        by simp
    next
      case closed
      then show ?thesis unfolding run by simp
    next
      case pend
      then show ?thesis unfolding run using register_create_new
        [where validate = validate and e = e and now = now
          and uname = uname and password = password and m = m and st = st
          and desiredRole = USER and desiredStatus = "''PENDING''"]
        by simp
    next
      case actv
      then show ?thesis unfolding run using register_create_new
        [where validate = validate and e = e and now = now
          and uname = uname and password = password and m = m and st = st
          and desiredRole = USER and desiredStatus = "''ACTIVE''"]
        by simp
    qed
  qed
  have created: "\<forall>new. users (snd r) = users st @ [new] \<longrightarrow>
            username new = uname
            \<and> (others = [] \<longrightarrow>
                 role new = SUPER_ADMIN \<and> status new = ''ACTIVE'' \<and> res_status (fst r) = 200)
            \<and> (others \<noteq> [] \<and> m = ''OPEN'' \<longrightarrow>
                 role new = USER \<and> status new = ''ACTIVE'' \<and> res_status (fst r) = 200)
            \<and> (others \<noteq> [] \<and> m = ''APPROVAL'' \<longrightarrow>
                 role new = USER \<and> status new = ''PENDING'' \<and> res_status (fst r) = 202
                 \<and> (\<exists>rest. res_body (fst r) = JObj ((''pendingApproval'', JBool True) # rest)))"
  proof (intro allI impI)
    fix new
    assume new: "users (snd r) = users st @ [new]"
    consider (off) "DISABLE_INTERNAL_ACCOUNTS e"
      | (boot) "\<not> DISABLE_INTERNAL_ACCOUNTS e" "others = []"
      | (closed) "\<not> DISABLE_INTERNAL_ACCOUNTS e" "others \<noteq> []" "m = ''CLOSED''"
      | (pend) "\<not> DISABLE_INTERNAL_ACCOUNTS e" "others \<noteq> []" "m = ''APPROVAL''"
      | (actv) "\<not> DISABLE_INTERNAL_ACCOUNTS e" "others \<noteq> []" "m = ''OPEN''"
      using modes by blast
    then show "username new = uname
            \<and> (others = [] \<longrightarrow>
                 role new = SUPER_ADMIN \<and> status new = ''ACTIVE'' \<and> res_status (fst r) = 200)
            \<and> (others \<noteq> [] \<and> m = ''OPEN'' \<longrightarrow>
                 role new = USER \<and> status new = ''ACTIVE'' \<and> res_status (fst r) = 200)
            \<and> (others \<noteq> [] \<and> m = ''APPROVAL'' \<longrightarrow>
                 role new = USER \<and> status new = ''PENDING'' \<and> res_status (fst r) = 202
                 \<and> (\<exists>rest. res_body (fst r) = JObj ((''pendingApproval'', JBool True) # rest)))"
    proof cases
      case off
      then show ?thesis using new unfolding run by simp
    next
      case boot
      then have "r = register_create validate e now uname password m SUPER_ADMIN ''ACTIVE'' st"
        unfolding run by simp
      then show ?thesis
        using new boot register_create_new
        [where validate = validate and e = e and now = now
          and uname = uname and password = password and m = m and st = st
          and desiredRole = SUPER_ADMIN and desiredStatus = "''ACTIVE''"]
        by simp
    next
      case closed
      then show ?thesis using new unfolding run by simp
    next
      case pend
      then have "r = register_create validate e now uname password m USER ''PENDING'' st"
        unfolding run by simp
      then show ?thesis
        using new pend register_create_new
        [where validate = validate and e = e and now = now
          and uname = uname and password = password and m = m and st = st
          and desiredRole = USER and desiredStatus = "''PENDING''"]
        by simp
    next
      case actv
      then have "r = register_create validate e now uname password m USER ''ACTIVE'' st"
        unfolding run by simp
      then show ?thesis
        using new actv register_create_new
        [where validate = validate and e = e and now = now
          and uname = uname and password = password and m = m and st = st
          and desiredRole = USER and desiredStatus = "''ACTIVE''"]
        by simp
    qed
  qed
  have served: "\<not> DISABLE_INTERNAL_ACCOUNTS e \<and> validate uname password = None
          \<and> \<not> list_ex (\<lambda>u. username u = uname) (users st)
          \<and> \<not> list_ex (\<lambda>u. toLowerCase (username_normalized u)
                              = toLowerCase (toLowerCase uname)) (users st)
          \<and> \<not> (others \<noteq> [] \<and> m = ''CLOSED'') \<longrightarrow>
            (\<exists>new. users (snd r) = users st @ [new])"
  proof (intro impI; elim conjE)
    assume ok: "\<not> DISABLE_INTERNAL_ACCOUNTS e" "validate uname password = None"
      "\<not> list_ex (\<lambda>u. username u = uname) (users st)"
      "\<not> list_ex (\<lambda>u. toLowerCase (username_normalized u)
                              = toLowerCase (toLowerCase uname)) (users st)"
      "\<not> (others \<noteq> [] \<and> m = ''CLOSED'')"
    have row: "\<exists>new. users (snd (register_create validate e now uname password m dr ds st))
                 = users st @ [new]" if "ds \<noteq> []" "dr \<noteq> []" for dr ds
      using register_create_row [where validate = validate and uname = uname
        and password = password and st = st and desiredStatus = ds
        and desiredRole = dr and e = e and now = now and m = m] ok that by blast
    have "r = register_create validate e now uname password m SUPER_ADMIN ''ACTIVE'' st
        \<or> r = register_create validate e now uname password m USER ''PENDING'' st
        \<or> r = register_create validate e now uname password m USER ''ACTIVE'' st"
      unfolding run using ok(1,5) by auto
    then show "\<exists>new. users (snd r) = users st @ [new]"
      using row [of "''ACTIVE''" SUPER_ADMIN] row [of "''ACTIVE''" USER]
        row [of "''PENDING''" USER]
      by auto
  qed
  show ?thesis
    by (rule conjI [OF created conjI [OF closed conjI [OF modes conjI [OF shape served]]]])
qed

theorem register_bootstrap_and_modes_witness:
  "map role (users (snd (register (\<lambda>u p. None) example_env
        (example_settings\<lparr>registration_mode := ''CLOSED''\<rparr>) 0 ''bob'' ''pw''
        (example_store\<lparr>users := []\<rparr>)))) = [SUPER_ADMIN]
   \<and> map status (users (snd (register (\<lambda>u p. None) example_env
        (example_settings\<lparr>registration_mode := ''CLOSED''\<rparr>) 0 ''bob'' ''pw''
        (example_store\<lparr>users := []\<rparr>)))) = [''ACTIVE'']
   \<and> map status (users (snd (register (\<lambda>u p. None) example_env
        (example_settings\<lparr>registration_mode := ''approval''\<rparr>) 0 ''bob'' ''pw''
        example_store))) = [''ACTIVE'', ''ACTIVE'', ''PENDING'']
   \<and> res_status (fst (register (\<lambda>u p. None) example_env
        (example_settings\<lparr>registration_mode := ''approval''\<rparr>) 0 ''bob'' ''pw''
        example_store)) = 202
   \<and> map status (users (snd (register (\<lambda>u p. None) example_env
        example_settings 0 ''bob'' ''pw'' example_store))) = [''ACTIVE'', ''ACTIVE'', ''ACTIVE'']
   \<and> snd (register (\<lambda>u p. None) example_env
        (example_settings\<lparr>registration_mode := ''CLOSED''\<rparr>) 0 ''bob'' ''pw'' example_store)
       = example_store
   \<and> res_status (fst (register (\<lambda>u p. None) example_env
        (example_settings\<lparr>registration_mode := ''CLOSED''\<rparr>) 0 ''bob'' ''pw''
        example_store)) = 403"
proof -
  have en: "\<not> DISABLE_INTERNAL_ACCOUNTS example_env" by (simp add: example_env_def)
  have free0: "\<not> list_ex (\<lambda>u. username u = ''bob'') (users (example_store\<lparr>users := []\<rparr>))"
    "\<not> list_ex (\<lambda>u. toLowerCase (username_normalized u) = toLowerCase (toLowerCase ''bob''))
        (users (example_store\<lparr>users := []\<rparr>))"
    by simp_all
  have free: "\<not> list_ex (\<lambda>u. username u = ''bob'') (users example_store)"
    "\<not> list_ex (\<lambda>u. toLowerCase (username_normalized u) = toLowerCase (toLowerCase ''bob''))
        (users example_store)"
    by (simp_all add: example_store_def example_admin_def example_user_def str_eval)
  have modes: "normalizeRegistrationMode ''CLOSED'' = ''CLOSED''"
    "normalizeRegistrationMode ''approval'' = ''APPROVAL''"
    "normalizeRegistrationMode (registration_mode example_settings) = ''OPEN''"
    by (simp_all add: normalizeRegistrationMode_def RegistrationModes_def or_str_def str_eval
        example_settings_def)
  have others: "filter (\<lambda>u. user_id u \<noteq> 0) (users example_store) \<noteq> []"
    by (simp add: example_store_def example_admin_def example_user_def)
  have st: "map status (users example_store) = [''ACTIVE'', ''ACTIVE'']"
    by (simp add: example_store_def example_admin_def example_user_def)
  have 1: "map role (users (snd (register (\<lambda>u p. None) example_env
        (example_settings\<lparr>registration_mode := ''CLOSED''\<rparr>) 0 ''bob'' ''pw''
        (example_store\<lparr>users := []\<rparr>)))) = [SUPER_ADMIN]
   \<and> map status (users (snd (register (\<lambda>u p. None) example_env
        (example_settings\<lparr>registration_mode := ''CLOSED''\<rparr>) 0 ''bob'' ''pw''
        (example_store\<lparr>users := []\<rparr>)))) = [''ACTIVE'']"
    using register_bootstrap_and_modes [where e = example_env
          and validate = "\<lambda>u p. None" and uname = "''bob''" and password = "''pw''"
          and st = "example_store\<lparr>users := []\<rparr>"
          and s = "example_settings\<lparr>registration_mode := ''CLOSED''\<rparr>" and now = 0]
      en free0
    by auto
  have 2: "map status (users (snd (register (\<lambda>u p. None) example_env
        (example_settings\<lparr>registration_mode := ''approval''\<rparr>) 0 ''bob'' ''pw''
        example_store))) = [''ACTIVE'', ''ACTIVE'', ''PENDING'']
   \<and> res_status (fst (register (\<lambda>u p. None) example_env
        (example_settings\<lparr>registration_mode := ''approval''\<rparr>) 0 ''bob'' ''pw''
        example_store)) = 202"
    using register_bootstrap_and_modes [where e = example_env
          and validate = "\<lambda>u p. None" and uname = "''bob''" and password = "''pw''"
          and st = example_store
          and s = "example_settings\<lparr>registration_mode := ''approval''\<rparr>" and now = 0]
      en free others modes st
    by auto
  have 3: "map status (users (snd (register (\<lambda>u p. None) example_env
        example_settings 0 ''bob'' ''pw'' example_store))) = [''ACTIVE'', ''ACTIVE'', ''ACTIVE'']"
    using register_bootstrap_and_modes [where e = example_env
          and validate = "\<lambda>u p. None" and uname = "''bob''" and password = "''pw''"
          and st = example_store and s = example_settings and now = 0]
      en free others modes st
    by auto
  have 4: "snd (register (\<lambda>u p. None) example_env
        (example_settings\<lparr>registration_mode := ''CLOSED''\<rparr>) 0 ''bob'' ''pw'' example_store)
       = example_store
   \<and> res_status (fst (register (\<lambda>u p. None) example_env
        (example_settings\<lparr>registration_mode := ''CLOSED''\<rparr>) 0 ''bob'' ''pw''
        example_store)) = 403"
    using register_bootstrap_and_modes [where e = example_env
          and validate = "\<lambda>u p. None" and uname = "''bob''" and password = "''pw''"
          and st = example_store
          and s = "example_settings\<lparr>registration_mode := ''CLOSED''\<rparr>" and now = 0]
      others modes
    by simp
  show ?thesis using 1 2 3 4 by simp
qed

end
